theory Spec2Isabelle
  imports Complex_Main "HOL-Library.Multiset"
begin

section \<open>Numbers of the source language\<close>

text \<open>
  Every numeric field of the program is a TypeScript \<open>number\<close>. The model keeps the one
  special value the code tests for and that changes the outcome of comparisons, \<open>NaN\<close>,
  and idealises every other value as a real: rounding, overflow to an infinity and the
  sign of zero are not represented. Arithmetic propagates \<open>NaN\<close>; every comparison with
  \<open>NaN\<close> is false, also \<open>===\<close>. The quotient by zero is not represented either (it is
  \<open>NaN\<close> here): the only division of the source by a non-constant is in
  \<open>getDistanceWeight\<close>, where the divisor is positive whenever it is reached with
  operands that are not \<open>NaN\<close>.
\<close>

datatype number = NaN | Num real

instantiation number :: "{plus, minus, times, inverse, ord}"
begin

fun plus_number :: "number \<Rightarrow> number \<Rightarrow> number" where
  "plus_number (Num a) (Num b) = Num (a + b)"
| "plus_number _ _ = NaN"

fun minus_number :: "number \<Rightarrow> number \<Rightarrow> number" where
  "minus_number (Num a) (Num b) = Num (a - b)"
| "minus_number _ _ = NaN"

fun times_number :: "number \<Rightarrow> number \<Rightarrow> number" where
  "times_number (Num a) (Num b) = Num (a * b)"
| "times_number _ _ = NaN"

fun divide_number :: "number \<Rightarrow> number \<Rightarrow> number" where
  "divide_number (Num a) (Num b) = (if b = 0 then NaN else Num (a / b))"
| "divide_number _ _ = NaN"

definition inverse_number :: "number \<Rightarrow> number" where
  "inverse_number x = divide (Num 1) x"

fun less_eq_number :: "number \<Rightarrow> number \<Rightarrow> bool" where
  "less_eq_number (Num a) (Num b) = (a \<le> b)"
| "less_eq_number _ _ = False"

fun less_number :: "number \<Rightarrow> number \<Rightarrow> bool" where
  "less_number (Num a) (Num b) = (a < b)"
| "less_number _ _ = False"

instance ..

end

text \<open>The operator \<open>===\<close> on two numbers.\<close>

fun strict_eq :: "number \<Rightarrow> number \<Rightarrow> bool" where
  "strict_eq (Num a) (Num b) = (a = b)"
| "strict_eq _ _ = False"

text \<open>\<open>isNaN\<close> on a value that is a number.\<close>

fun isNaN :: "number \<Rightarrow> bool" where
  "isNaN NaN = True"
| "isNaN (Num _) = False"

section \<open>Danger levels and the threshold classifier\<close>

datatype DangerLevel = Extreme | VeryHigh | High | Medium | Low | Normal | NoRisk

text \<open>The string each level is in the source.\<close>

fun level_name :: "DangerLevel \<Rightarrow> string" where
  "level_name Extreme = ''extreme''"
| "level_name VeryHigh = ''very high''"
| "level_name High = ''high''"
| "level_name Medium = ''medium''"
| "level_name Low = ''low''"
| "level_name Normal = ''normal''"
| "level_name NoRisk = ''no risk''"

record Location =
  lat :: number
  lng :: number

record EnvironmentalData =
  temperature :: number
  airQuality :: "number option"
  windSpeed :: "number option"
  humidity :: "number option"
  drynessIndex :: "number option"
  timeOfDay :: "number option"
  location :: Location

record DangerAssessment =
  level :: DangerLevel
  description :: string

text \<open>The array \<open>dangerLevels\<close> that both \<open>assessDangerLevel\<close> and \<open>determineRiskLevel\<close> declare.\<close>

definition dangerLevels :: "DangerLevel list" where
  "dangerLevels = [NoRisk, Normal, Low, Medium, High, VeryHigh, Extreme]"

text \<open>\<open>Array.prototype.indexOf\<close>: the first index of the element, or \<open>-1\<close>.\<close>

fun indexOf :: "'a list \<Rightarrow> 'a \<Rightarrow> int" where
  "indexOf [] x = -1"
| "indexOf (y # ys) x =
     (if y = x then 0 else (let i = indexOf ys x in if i < 0 then -1 else i + 1))"

definition tempLevel :: "number \<Rightarrow> DangerLevel" where
  "tempLevel t =
     (if t \<ge> Num 60 then Extreme
      else if t \<ge> Num 45 then VeryHigh
      else if t \<ge> Num 35 then High
      else if t \<ge> Num 25 then Medium
      else if t \<ge> Num 15 then Low
      else if t \<ge> Num 5 then Normal
      else NoRisk)"

definition aqiLevel :: "number option \<Rightarrow> DangerLevel" where
  "aqiLevel aq =
     (case aq of
        None \<Rightarrow> NoRisk
      | Some a \<Rightarrow>
          if a \<ge> Num 300 then Extreme
          else if a \<ge> Num 200 then VeryHigh
          else if a \<ge> Num 150 then High
          else if a \<ge> Num 100 then Medium
          else if a \<ge> Num 50 then Low
          else Normal)"

definition assessDangerLevel :: "EnvironmentalData \<Rightarrow> DangerAssessment" where
  "assessDangerLevel data =
     (let tl = tempLevel (temperature data);
          al = aqiLevel (airQuality data);
          overallLevel = dangerLevels ! nat (max (indexOf dangerLevels tl) (indexOf dangerLevels al));
          description =
            (if overallLevel \<noteq> NoRisk
             then ''Temperature classification: '' @ level_name tl
                  @ ''. AQI classification: '' @ level_name al @ ''.''
             else ''No significant environmental concerns detected.'')
      in \<lparr> level = overallLevel, description = description \<rparr>)"

section \<open>The level decision\<close>

text \<open>The local \<open>scoreBasedRisk\<close> of \<open>determineRiskLevel\<close>.\<close>

definition scoreBasedRisk :: "number \<Rightarrow> DangerLevel" where
  "scoreBasedRisk totalScore =
     (if totalScore \<ge> Num 35 then Extreme
      else if totalScore \<ge> Num 20 then VeryHigh
      else if totalScore \<ge> Num 12 then High
      else if totalScore \<ge> Num 6 then Medium
      else if totalScore \<ge> Num 2 then Low
      else NoRisk)"

definition determineRiskLevel :: "number \<Rightarrow> DangerLevel \<Rightarrow> DangerLevel" where
  "determineRiskLevel totalScore basicAssessmentLevel =
     (let scoreBasedIndex = indexOf dangerLevels (scoreBasedRisk totalScore);
          basicAssessmentIndex = indexOf dangerLevels basicAssessmentLevel
      in dangerLevels ! nat (max scoreBasedIndex basicAssessmentIndex))"

section \<open>What the program takes from outside\<close>

text \<open>
  The library functions of the language runtime that the code calls, and
  \<open>calculateDistance\<close>, which the code imports from a module whose file is not among
  the sources, are parameters of the model: nothing is assumed about them. A \<open>Date\<close>
  object is the three readings the code takes of it; each is \<open>NaN\<close> for an invalid date.
  Two parameters stand for what the language does where the model has no definition of
  its own: \<open>compareOther a b\<close> is the outcome of the comparison \<open>a < b\<close> (true, false, or
  undefined, which is \<open>None\<close>) for two values that are not both numbers, and
  \<open>sortWithNaN\<close> is the order in which \<open>Array.prototype.sort\<close> with the comparison
  \<open>a - b\<close> leaves a list of numbers that holds a \<open>NaN\<close>.
\<close>

datatype js_error = TypeError | SyntaxError | FetchFailed

text \<open>
  A value of the language, as a raw entry of a data file can be. An object is the list
  of its properties, and a name is looked up in it from the front.
\<close>

datatype jsval =
    JUndefined
  | JNull
  | JBool bool
  | JNumber number
  | JString string
  | JArray "jsval list"
  | JObject "(string \<times> jsval) list"

record JsDate =
  getTime :: number
  getFullYear :: number
  getMonth :: number

record Runtime =
  calculateDistance :: "number \<Rightarrow> number \<Rightarrow> number \<Rightarrow> number \<Rightarrow> number"
  newDate :: "string \<Rightarrow> JsDate"
  parseInt :: "jsval \<Rightarrow> number"
  String_of :: "jsval \<Rightarrow> string"
  toFixed :: "number \<Rightarrow> nat \<Rightarrow> string"
  trim :: "string \<Rightarrow> string"
  toUpperCase :: "string \<Rightarrow> string"
  toLowerCase :: "string \<Rightarrow> string"
  compareOther :: "jsval \<Rightarrow> jsval \<Rightarrow> bool option"
  sortWithNaN :: "number list \<Rightarrow> number list"

text \<open>Reading a property of a value that is neither \<open>null\<close> nor \<open>undefined\<close>.\<close>

fun getProp :: "jsval \<Rightarrow> string \<Rightarrow> jsval" where
  "getProp (JObject kvs) k = (case map_of kvs k of Some v \<Rightarrow> v | None \<Rightarrow> JUndefined)"
| "getProp _ k = JUndefined"

fun truthy :: "jsval \<Rightarrow> bool" where
  "truthy JUndefined = False"
| "truthy JNull = False"
| "truthy (JBool b) = b"
| "truthy (JNumber n) = (\<not> isNaN n \<and> n \<noteq> Num 0)"
| "truthy (JString s) = (s \<noteq> [])"
| "truthy (JArray _) = True"
| "truthy (JObject _) = True"

text \<open>\<open>String.prototype.padStart\<close> with a one-character filler.\<close>

definition padStart :: "string \<Rightarrow> nat \<Rightarrow> char \<Rightarrow> string" where
  "padStart s n c = replicate (n - length s) c @ s"

text \<open>\<open>String.prototype.includes\<close>.\<close>

fun str_includes :: "string \<Rightarrow> string \<Rightarrow> bool" where
  "str_includes [] sub = (sub = [])"
| "str_includes (c # cs) sub = (take (length sub) (c # cs) = sub \<or> str_includes cs sub)"

text \<open>
  \<open>Array.prototype.sort\<close> with a comparison function that is consistent on the list: a
  stable sort, here by insertion, where an element moves behind another only when the
  comparison of the two is positive. Where a comparison is \<open>NaN\<close> the language leaves the
  order to the implementation, and the model does not use this function: the fire
  records are sorted after the filter has removed every record whose distance is
  \<open>NaN\<close>, and the years are sorted by \<open>sortYears\<close> below.
\<close>

fun insert_by :: "('a \<Rightarrow> 'a \<Rightarrow> number) \<Rightarrow> 'a \<Rightarrow> 'a list \<Rightarrow> 'a list" where
  "insert_by cmp x [] = [x]"
| "insert_by cmp x (y # ys) =
     (if cmp x y > Num 0 then y # insert_by cmp x ys else x # y # ys)"

definition js_sort :: "('a \<Rightarrow> 'a \<Rightarrow> number) \<Rightarrow> 'a list \<Rightarrow> 'a list" where
  "js_sort cmp xs = foldr (insert_by cmp) xs []"

section \<open>Historical records and their loading\<close>

record FireLocation =
  latitude :: number
  longitude :: number

text \<open>The field \<open>location\<close> of the source is \<open>fire_location\<close> here, the name being taken.\<close>

record HistoricalFireRecord =
  fire_id :: string
  date :: string
  cause :: string
  area_burned :: number
  severity :: string
  fire_location :: FireLocation
  incident_name :: "string option"

definition unifyCause :: "Runtime \<Rightarrow> jsval \<Rightarrow> string" where
  "unifyCause rt causeVal =
     (case causeVal of
        JString s \<Rightarrow>
          if \<not> truthy causeVal then ''Unknown''
          else
            let c = toUpperCase rt (trim rt s) in
            if c \<in> set [''MAN'', ''PERSON'', ''H''] then ''Human''
            else if c \<in> set [''LTG'', ''LIGHTNING''] then ''Lightning''
            else if c \<in> set [''SPONTANEOUS'', ''SPONT''] then ''Spontaneous''
            else c
      | _ \<Rightarrow> ''Unknown'')"

definition unifySeverity :: "Runtime \<Rightarrow> jsval \<Rightarrow> string" where
  "unifySeverity rt sevVal =
     (case sevVal of
        JString v \<Rightarrow>
          if \<not> truthy sevVal then ''low''
          else
            let s = toLowerCase rt (trim rt v) in
            if str_includes s ''very low'' then ''low''
            else if str_includes s ''extreme'' then ''extreme''
            else if str_includes s ''very high'' then ''very high''
            else s
      | _ \<Rightarrow> ''low'')"

text \<open>
  \<open>unifyRecord\<close>. Its first statement reads \<open>raw.Year\<close>, which throws when the entry is
  \<open>null\<close> or \<open>undefined\<close>; no later statement can throw.
\<close>

definition unifyRecord :: "Runtime \<Rightarrow> jsval \<Rightarrow> js_error + HistoricalFireRecord option" where
  "unifyRecord rt raw =
     (if raw = JNull \<or> raw = JUndefined then Inl TypeError
      else
        let hasYear = (getProp raw ''Year'' \<noteq> JUndefined \<and> getProp raw ''Month'' \<noteq> JUndefined);
            dateStr0 =
              (if hasYear then
                 let y = parseInt rt (getProp raw ''Year'');
                     m = parseInt rt (getProp raw ''Month'');
                     d = parseInt rt (getProp raw ''Day'');
                     safeMonth = (if m \<ge> Num 1 \<and> m \<le> Num 12 then m else Num 1);
                     safeDay = (if d \<ge> Num 1 \<and> d \<le> Num 31 then d else Num 1)
                 in Some (padStart (String_of rt (JNumber y)) 4 (CHR ''0'') @ ''-''
                          @ padStart (String_of rt (JNumber safeMonth)) 2 (CHR ''0'') @ ''-''
                          @ padStart (String_of rt (JNumber safeDay)) 2 (CHR ''0''))
               else
                 (case getProp raw ''date'' of
                    JString s \<Rightarrow> if s \<noteq> [] then Some s else None
                  | _ \<Rightarrow> None));
            dateStr = (case dateStr0 of None \<Rightarrow> ''1970-01-01''
                       | Some s \<Rightarrow> if s = [] then ''1970-01-01'' else s);
            cause = unifyCause rt (getProp raw ''cause'');
            severity = unifySeverity rt (getProp raw ''severity'');
            area = (case getProp raw ''area_burned'' of
                      JNumber a \<Rightarrow> if \<not> isNaN a then a else Num 0
                    | _ \<Rightarrow> Num 0)
        in
          if \<not> truthy (getProp raw ''location'') then Inr None
          else
            (case (getProp (getProp raw ''location'') ''latitude'',
                   getProp (getProp raw ''location'') ''longitude'') of
               (JNumber la, JNumber lo) \<Rightarrow>
                 let fireId = (if truthy (getProp raw ''fire_id'')
                               then String_of rt (getProp raw ''fire_id'') else ''unknown-id'');
                     incident = (case getProp raw ''incident_name'' of
                                   JString s \<Rightarrow> if s \<noteq> [] then Some s else None
                                 | _ \<Rightarrow> None)
                 in Inr (Some \<lparr> fire_id = fireId, date = dateStr, cause = cause,
                                 area_burned = area, severity = severity,
                                 fire_location = \<lparr> latitude = la, longitude = lo \<rparr>,
                                 incident_name = incident \<rparr>)
             | _ \<Rightarrow> Inr None))"

text \<open>
  What reading and parsing one file gives: a failure (the file cannot be read, is not
  JSON, or is not an array), or the entries of the array.
\<close>

datatype FileOutcome = FileFailure | FileEntries "jsval list"

record ModuleState =
  historicalData :: "HistoricalFireRecord list"
  loaded :: bool

definition files :: "string list" where
  "files = [''wildfire_data_1_part1.json'', ''wildfire_data_1_part2.json'',
            ''wildfire_data_part1.json'', ''wildfire_data_part2.json'',
            ''wildfire_data_2.json'']"

text \<open>
  The inner loop over the entries of one file. An entry on which \<open>unifyRecord\<close> throws
  ends the loop (the handler is around the whole file); the records pushed before stay.
\<close>

fun pushEntries :: "Runtime \<Rightarrow> jsval list \<Rightarrow> HistoricalFireRecord list \<Rightarrow> HistoricalFireRecord list" where
  "pushEntries rt [] store = store"
| "pushEntries rt (raw # rest) store =
     (case unifyRecord rt raw of
        Inl e \<Rightarrow> store
      | Inr None \<Rightarrow> pushEntries rt rest store
      | Inr (Some rec) \<Rightarrow> pushEntries rt rest (store @ [rec]))"

definition loadFile :: "Runtime \<Rightarrow> (string \<Rightarrow> FileOutcome) \<Rightarrow> HistoricalFireRecord list \<Rightarrow> string \<Rightarrow> HistoricalFireRecord list" where
  "loadFile rt fs store fileName =
     (case fs fileName of
        FileFailure \<Rightarrow> store
      | FileEntries rawArray \<Rightarrow> pushEntries rt rawArray store)"

definition loadHistoricalWildfireData :: "Runtime \<Rightarrow> (string \<Rightarrow> FileOutcome) \<Rightarrow> ModuleState \<Rightarrow> ModuleState" where
  "loadHistoricalWildfireData rt fs st =
     (if loaded st then st
      else \<lparr> historicalData = foldl (loadFile rt fs) (historicalData st) files, loaded = True \<rparr>)"

section \<open>Weighting and penalty functions\<close>

text \<open>
  \<open>now\<close> is the value of \<open>new Date()\<close>. The code takes it afresh at each use; the model
  takes one reading for a call of the entry point.
\<close>

definition msInYear :: number where
  "msInYear = Num (1000 * 3600 * 24 * 365)"

definition getRecencyFactor :: "Runtime \<Rightarrow> JsDate \<Rightarrow> string \<Rightarrow> number" where
  "getRecencyFactor rt now dateStr =
     (let fireDate = newDate rt dateStr;
          yearsAgo = (getTime now - getTime fireDate) / msInYear
      in if yearsAgo \<le> Num 2 then Num 1.0
         else if yearsAgo \<le> Num 5 then Num 0.8
         else if yearsAgo \<le> Num 10 then Num 0.5
         else Num 0.2)"

definition getCauseFactor :: "Runtime \<Rightarrow> string \<Rightarrow> number" where
  "getCauseFactor rt causeStr =
     (let c = toLowerCase rt causeStr
      in if c = ''lightning'' then Num 1.2
         else if c = ''human'' then Num 1.1
         else if c = ''spontaneous'' then Num 1.05
         else Num 1.0)"

definition getSeasonalityFactor :: "Runtime \<Rightarrow> JsDate \<Rightarrow> string \<Rightarrow> number \<Rightarrow> number \<Rightarrow> number" where
  "getSeasonalityFactor rt now fireDateStr la lo =
     (let fireDate = newDate rt fireDateStr;
          currentMonth = getMonth now;
          fireMonth = getMonth fireDate;
          factor = Num 1.0;
          factor = (if la > Num 55 then factor * Num 1.05 else factor);
          factor = (if lo < Num (-120) then factor * Num 1.02 else factor);
          factor = (if strict_eq fireMonth currentMonth then factor * Num 1.15 else factor);
          factor = (if fireMonth \<ge> Num 4 \<and> fireMonth \<le> Num 8 then factor * Num 1.1 else factor)
      in factor)"

definition getDistanceWeight :: "number \<Rightarrow> number \<Rightarrow> number" where
  "getDistanceWeight distKm maxRadius =
     (if distKm \<le> Num 10 then Num 1.0
      else if distKm \<ge> maxRadius then Num 0.1
      else
        let ratio = (distKm - Num 10) / (maxRadius - Num 10)
        in Num 1.0 - Num 0.9 * ratio)"

definition getPenaltyByConsecutiveCount :: "nat \<Rightarrow> number" where
  "getPenaltyByConsecutiveCount n =
     (if n = 2 then Num 0.2
      else if n = 3 then Num 0.5
      else if n \<ge> 4 then Num 1.0
      else Num 0)"

text \<open>
  The loop of \<open>getConsecutiveYearPenalty\<close> over the sorted years: the list is what is
  left from index \<open>i\<close> on, and the result is \<open>totalPenalty\<close> and \<open>consecutiveCount\<close> at
  the exit.
\<close>

fun consecutiveLoop :: "number list \<Rightarrow> number \<Rightarrow> nat \<Rightarrow> number \<times> nat" where
  "consecutiveLoop (a # b # rest) totalPenalty consecutiveCount =
     (if strict_eq b (a + Num 1)
      then consecutiveLoop (b # rest) totalPenalty (consecutiveCount + 1)
      else consecutiveLoop (b # rest)
             (if consecutiveCount \<ge> 2
              then totalPenalty + getPenaltyByConsecutiveCount consecutiveCount
              else totalPenalty)
             1)"
| "consecutiveLoop _ totalPenalty consecutiveCount = (totalPenalty, consecutiveCount)"

definition fireYear :: "Runtime \<Rightarrow> HistoricalFireRecord \<Rightarrow> number" where
  "fireYear rt f = getFullYear (newDate rt (date f))"

text \<open>
  The call \<open>.sort((a, b) => a - b)\<close> on the years: the stable ascending sort when no year
  is \<open>NaN\<close>, and what the runtime makes of the list otherwise.
\<close>

definition sortYears :: "Runtime \<Rightarrow> number list \<Rightarrow> number list" where
  "sortYears rt years =
     (if list_ex isNaN years then sortWithNaN rt years else js_sort (\<lambda>a b. a - b) years)"

definition getConsecutiveYearPenalty :: "Runtime \<Rightarrow> HistoricalFireRecord list \<Rightarrow> number" where
  "getConsecutiveYearPenalty rt fires =
     (if length fires < 2 then Num 0
      else
        let years = sortYears rt (map (fireYear rt) fires);
            (totalPenalty, consecutiveCount) = consecutiveLoop years (Num 0) 1
        in if consecutiveCount \<ge> 2
           then totalPenalty + getPenaltyByConsecutiveCount consecutiveCount
           else totalPenalty)"

text \<open>
  \<open>yearCounts\<close> of \<open>getOverlappingFiresPenalty\<close>, an object keyed by the year, as an
  association list in the order the keys were first written. (The source walks the keys
  in the object's own key order; the sum of the model does not depend on the order.)
\<close>

fun countYear :: "number \<Rightarrow> (number \<times> nat) list \<Rightarrow> (number \<times> nat) list" where
  "countYear y [] = [(y, 1)]"
| "countYear y ((k, c) # rest) =
     (if k = y then (k, c + 1) # rest else (k, c) # countYear y rest)"

definition getOverlappingFiresPenalty :: "Runtime \<Rightarrow> HistoricalFireRecord list \<Rightarrow> number" where
  "getOverlappingFiresPenalty rt fires =
     (let yearCounts = foldl (\<lambda>yc f. countYear (fireYear rt f) yc) [] fires
      in foldl (\<lambda>penalty (y, count).
                  if count > 1 then penalty + (Num (real count) - Num 1) * Num 0.1
                  else penalty)
               (Num 0) yearCounts)"

datatype TerrainType = Grassland | Forest | Unknown

definition adjustSeverityForLandscape :: "Runtime \<Rightarrow> string \<Rightarrow> number \<Rightarrow> TerrainType \<Rightarrow> number" where
  "adjustSeverityForLandscape rt severityStr yearsAgo terrainType =
     (let s = toLowerCase rt severityStr;
          base = (if str_includes s ''extreme'' \<or> str_includes s ''very high'' then Num 3
                  else if str_includes s ''high'' then Num 2
                  else if str_includes s ''medium'' then Num 1
                  else Num 0)
      in if terrainType = Grassland \<and> yearsAgo > Num 5 then base * Num 0.5 else base)"

section \<open>The scoring function\<close>

definition distanceTo :: "Runtime \<Rightarrow> EnvironmentalData \<Rightarrow> HistoricalFireRecord \<Rightarrow> number" where
  "distanceTo rt env fire =
     calculateDistance rt (lat (location env)) (lng (location env))
       (latitude (fire_location fire)) (longitude (fire_location fire))"

text \<open>The body of the loop over the fires: the \<open>fireScore\<close> of one fire.\<close>

definition fireScore :: "Runtime \<Rightarrow> JsDate \<Rightarrow> EnvironmentalData \<Rightarrow> number \<Rightarrow> HistoricalFireRecord \<Rightarrow> number" where
  "fireScore rt now env maxRadius fire =
     (let dist = distanceTo rt env fire;
          recencyFactor = getRecencyFactor rt now (date fire);
          causeFactor = getCauseFactor rt (cause fire);
          seasonalityFactor =
            getSeasonalityFactor rt now (date fire)
              (latitude (fire_location fire)) (longitude (fire_location fire));
          distanceFactor = getDistanceWeight dist maxRadius;
          yearsAgo = getFullYear now - getFullYear (newDate rt (date fire));
          terrainType = Unknown;
          severityValue = adjustSeverityForLandscape rt (severity fire) yearsAgo terrainType;
          areaFactor = (if area_burned fire > Num 500 then Num 1.5 else Num 1.0)
      in severityValue * areaFactor * recencyFactor * causeFactor * seasonalityFactor
           * distanceFactor)"

definition computeRiskFromHistoryAndRealTime ::
  "Runtime \<Rightarrow> JsDate \<Rightarrow> EnvironmentalData \<Rightarrow> HistoricalFireRecord list \<Rightarrow> number \<Rightarrow> number" where
  "computeRiskFromHistoryAndRealTime rt now env fires maxRadius =
     (let historicalScore =
            foldl (\<lambda>acc fire. acc + fireScore rt now env maxRadius fire) (Num 0) fires;
          consecutivePenalty = getConsecutiveYearPenalty rt fires;
          overlapPenalty = getOverlappingFiresPenalty rt fires;
          frequencyScore = Num (real (min (length fires) 5));
          total = historicalScore + consecutivePenalty + overlapPenalty + frequencyScore;
          total = (if temperature env \<ge> Num 60 then total + Num 20
                   else if temperature env \<ge> Num 45 then total + Num 10
                   else if temperature env \<ge> Num 35 then total + Num 5
                   else if temperature env \<ge> Num 25 then total + Num 2
                   else total);
          total = (case airQuality env of
                     None \<Rightarrow> total
                   | Some aq \<Rightarrow>
                       if aq \<ge> Num 300 then total + Num 5
                       else if aq \<ge> Num 200 then total + Num 3
                       else if aq \<ge> Num 150 then total + Num 2
                       else if aq \<ge> Num 100 then total + Num 1
                       else total);
          total = (case drynessIndex env of
                     None \<Rightarrow> total
                   | Some dr \<Rightarrow>
                       if dr \<ge> Num 90 then total + Num 8
                       else if dr \<ge> Num 80 then total + Num 5
                       else if dr \<ge> Num 60 then total + Num 2
                       else total);
          total = (case humidity env of
                     None \<Rightarrow> total
                   | Some h \<Rightarrow>
                       if h < Num 10 then total + Num 6
                       else if h < Num 20 then total + Num 3
                       else if h < Num 30 then total + Num 1
                       else total);
          total = (case windSpeed env of
                     None \<Rightarrow> total
                   | Some w \<Rightarrow>
                       if w > Num 60 then total + Num 8
                       else if w > Num 40 then total + Num 4
                       else if w > Num 25 then total + Num 2
                       else total);
          total = (case timeOfDay env of
                     None \<Rightarrow> total
                   | Some t \<Rightarrow>
                       if t \<ge> Num 13 \<and> t \<le> Num 17 then total + Num 1 else total)
      in total)"

section \<open>The active-fire check\<close>

text \<open>
  What \<open>fetch\<close> gives: a rejection, or a response with its \<open>ok\<close> flag, its status text and
  its body. The body is unreadable when \<open>res.json()\<close> rejects; otherwise it is the value
  that was parsed, whatever it is: the code casts it to \<open>GeoJsonResponse\<close> and checks
  nothing but what is written below.
\<close>

datatype FeedBody = BodyUnreadable | BodyJson jsval

datatype FetchResult = FetchRejected | Response bool string FeedBody

text \<open>
  The relational operators. On two numbers they are those of the numbers; on other
  operands they follow the language's definition from the outcome of its comparison
  \<open>a < b\<close>: \<open>a > b\<close> is \<open>b < a\<close>, \<open>a <= b\<close> holds when \<open>b < a\<close> is false, and \<open>a >= b\<close> holds
  when \<open>a < b\<close> is false.
\<close>

fun js_lt :: "Runtime \<Rightarrow> jsval \<Rightarrow> jsval \<Rightarrow> bool" where
  "js_lt rt (JNumber x) (JNumber y) = (x < y)"
| "js_lt rt a b = (compareOther rt a b = Some True)"

fun js_gt :: "Runtime \<Rightarrow> jsval \<Rightarrow> jsval \<Rightarrow> bool" where
  "js_gt rt (JNumber x) (JNumber y) = (x > y)"
| "js_gt rt a b = (compareOther rt b a = Some True)"

fun js_le :: "Runtime \<Rightarrow> jsval \<Rightarrow> jsval \<Rightarrow> bool" where
  "js_le rt (JNumber x) (JNumber y) = (x \<le> y)"
| "js_le rt a b = (compareOther rt b a = Some False)"

fun js_ge :: "Runtime \<Rightarrow> jsval \<Rightarrow> jsval \<Rightarrow> bool" where
  "js_ge rt (JNumber x) (JNumber y) = (x \<ge> y)"
| "js_ge rt a b = (compareOther rt a b = Some False)"

text \<open>
  Iterating a value with \<open>for ... of\<close> or an array pattern: an array gives its elements,
  a string its characters (here the bytes of the string), and any other value throws. \<open>coords[0]\<close> of a value that is
  not \<open>null\<close> or \<open>undefined\<close>. The pattern \<open>[lng, lat]\<close> takes the first two elements of
  what it iterates, \<open>undefined\<close> standing for a missing one.
\<close>

fun iterate :: "jsval \<Rightarrow> js_error + jsval list" where
  "iterate (JArray xs) = Inr xs"
| "iterate (JString s) = Inr (map (\<lambda>c. JString [c]) s)"
| "iterate _ = Inl TypeError"

fun first_element :: "jsval \<Rightarrow> jsval" where
  "first_element (JArray xs) = (case xs of [] \<Rightarrow> JUndefined | x # _ \<Rightarrow> x)"
| "first_element (JString s) = (case s of [] \<Rightarrow> JUndefined | c # _ \<Rightarrow> JString [c])"
| "first_element (JObject kvs) = getProp (JObject kvs) ''0''"
| "first_element _ = JUndefined"

definition destructure2 :: "jsval \<Rightarrow> js_error + jsval \<times> jsval" where
  "destructure2 v =
     (case iterate v of
        Inl e \<Rightarrow> Inl e
      | Inr xs \<Rightarrow>
          Inr (case xs of
                 [] \<Rightarrow> (JUndefined, JUndefined)
               | a # rest \<Rightarrow> (a, case rest of [] \<Rightarrow> JUndefined | b # _ \<Rightarrow> b)))"

text \<open>A loop over a list whose body can throw: the first throw ends it.\<close>

fun foldE :: "('b \<Rightarrow> 'a \<Rightarrow> js_error + 'b) \<Rightarrow> 'b \<Rightarrow> 'a list \<Rightarrow> js_error + 'b" where
  "foldE f b [] = Inr b"
| "foldE f b (x # xs) = (case f b x of Inl e \<Rightarrow> Inl e | Inr b' \<Rightarrow> foldE f b' xs)"

text \<open>
  The box is \<open>[minLat, minLng, maxLat, maxLng]\<close>. Its entries start as numbers and take
  the values of the coordinates, which the code does not check to be numbers.
\<close>

type_synonym BoundingBox = "jsval \<times> jsval \<times> jsval \<times> jsval"

text \<open>The four updates that the loops of \<open>getBoundingBox\<close> make for one position.\<close>

fun extendBox :: "Runtime \<Rightarrow> BoundingBox \<Rightarrow> jsval \<times> jsval \<Rightarrow> BoundingBox" where
  "extendBox rt (minLat, minLng, maxLat, maxLng) (lngVal, latVal) =
     (if js_lt rt latVal minLat then latVal else minLat,
      if js_lt rt lngVal minLng then lngVal else minLng,
      if js_gt rt latVal maxLat then latVal else maxLat,
      if js_gt rt lngVal maxLng then lngVal else maxLng)"

text \<open>The loop \<open>for (const [lng, lat] of ring)\<close>.\<close>

definition ringBox :: "Runtime \<Rightarrow> BoundingBox \<Rightarrow> jsval \<Rightarrow> js_error + BoundingBox" where
  "ringBox rt box ring =
     (case iterate ring of
        Inl e \<Rightarrow> Inl e
      | Inr positions \<Rightarrow>
          foldE (\<lambda>b p. case destructure2 p of
                          Inl e \<Rightarrow> Inl e
                        | Inr position \<Rightarrow> Inr (extendBox rt b position))
            box positions)"

definition getBoundingBox :: "Runtime \<Rightarrow> jsval \<Rightarrow> jsval \<Rightarrow> js_error + BoundingBox" where
  "getBoundingBox rt type coords =
     (let init = (JNumber (Num 9999), JNumber (Num 9999),
                  JNumber (Num (-9999)), JNumber (Num (-9999)))
      in if type = JString ''Polygon'' then ringBox rt init (first_element coords)
         else if type = JString ''MultiPolygon'' then
           (case iterate coords of
              Inl e \<Rightarrow> Inl e
            | Inr polygons \<Rightarrow>
                foldE (\<lambda>box polygon.
                         case iterate polygon of
                           Inl e \<Rightarrow> Inl e
                         | Inr rings \<Rightarrow> foldE (ringBox rt) box rings)
                  init polygons)
         else Inr init)"

fun isPointInBoundingBox :: "Runtime \<Rightarrow> number \<Rightarrow> number \<Rightarrow> BoundingBox \<Rightarrow> bool" where
  "isPointInBoundingBox rt la lo (minLat, minLng, maxLat, maxLng) =
     (js_ge rt (JNumber la) minLat \<and> js_le rt (JNumber la) maxLat
      \<and> js_ge rt (JNumber lo) minLng \<and> js_le rt (JNumber lo) maxLng)"

text \<open>
  The loop over the features, inside the \<open>try\<close> block. Reading \<open>feature.geometry\<close> throws
  when the feature is \<open>null\<close>.
\<close>

fun scanFeatures :: "Runtime \<Rightarrow> number \<Rightarrow> number \<Rightarrow> jsval list \<Rightarrow> js_error + number" where
  "scanFeatures rt la lo [] = Inr (Num 0)"
| "scanFeatures rt la lo (feature # rest) =
     (if feature = JNull \<or> feature = JUndefined then Inl TypeError
      else
        let geometry = getProp feature ''geometry'' in
        if \<not> truthy geometry then scanFeatures rt la lo rest
        else
          let coords = getProp geometry ''coordinates'' in
          if \<not> truthy coords then scanFeatures rt la lo rest
          else
            (case getBoundingBox rt (getProp geometry ''type'') coords of
               Inl e \<Rightarrow> Inl e
             | Inr boundingBox \<Rightarrow>
                 if isPointInBoundingBox rt la lo boundingBox then Inr (Num 5)
                 else scanFeatures rt la lo rest))"

definition tryBlock :: "Runtime \<Rightarrow> FetchResult \<Rightarrow> EnvironmentalData \<Rightarrow> js_error + number" where
  "tryBlock rt fetch env =
     (case fetch of
        FetchRejected \<Rightarrow> Inl FetchFailed
      | Response ok statusText body \<Rightarrow>
          if \<not> ok then Inr (Num 0)
          else
            (case body of
               BodyUnreadable \<Rightarrow> Inl SyntaxError
             | BodyJson geojson \<Rightarrow>
                 if geojson = JNull \<or> geojson = JUndefined then Inl TypeError
                 else
                   (case getProp geojson ''features'' of
                      JArray features \<Rightarrow>
                        scanFeatures rt (lat (location env)) (lng (location env)) features
                    | _ \<Rightarrow> Inr (Num 0))))"

text \<open>\<open>getActiveFirePenalty\<close>: the \<open>try\<close> block, and the handler that returns 0.\<close>

definition getActiveFirePenalty ::
  "Runtime \<Rightarrow> FetchResult \<Rightarrow> EnvironmentalData \<Rightarrow> js_error + number" where
  "getActiveFirePenalty rt fetch env =
     (case tryBlock rt fetch env of
        Inl error \<Rightarrow> Inr (Num 0)
      | Inr penalty \<Rightarrow> Inr penalty)"

section \<open>The entry point\<close>

definition ACTIVE_FIRE_URL :: string where
  "ACTIVE_FIRE_URL = ''https://services6.prod.bcwildfireservices.com/ubm4tcTYICKBpist/arcgis/rest/services/BCWS_FirePerimeters_PublicView/FeatureServer/0/query?returnGeometry=true&where=FIRE_STATUS%20%3C%3E%20%27Out%27&outSR=4326&outFields=*&inSR=4326&geometry=%7B%22xmin%22%3A-135%2C%22ymin%22%3A40.979898069620155%2C%22xmax%22%3A-89.99999999999999%2C%22ymax%22%3A66.51326044311188%2C%22spatialReference%22%3A%7B%22wkid%22%3A4326%7D%7D&geometryType=esriGeometryEnvelope&spatialRel=esriSpatialRelIntersects&geometryPrecision=6&resultType=tile&f=geojson''"

record WildfireRiskResult =
  riskLevel :: DangerLevel
  riskExplanation :: string

text \<open>What one call finds outside the module: the files, the clock and the feed.\<close>

record World =
  fileSystem :: "string \<Rightarrow> FileOutcome"
  clock :: JsDate
  feed :: FetchResult

definition quickCandidate :: "Runtime \<Rightarrow> EnvironmentalData \<Rightarrow> HistoricalFireRecord list \<Rightarrow> HistoricalFireRecord list" where
  "quickCandidate rt env hist = filter (\<lambda>f. distanceTo rt env f \<le> Num 50) hist"

text \<open>The variable \<open>radius\<close> after the adaptive choice.\<close>

definition adaptiveRadius :: "Runtime \<Rightarrow> EnvironmentalData \<Rightarrow> HistoricalFireRecord list \<Rightarrow> number" where
  "adaptiveRadius rt env hist =
     (let radius = Num 50
      in if length (quickCandidate rt env hist) > 20 then Num 30
         else if length (quickCandidate rt env hist) < 5 then Num 75
         else radius)"

definition candidateFires :: "Runtime \<Rightarrow> EnvironmentalData \<Rightarrow> HistoricalFireRecord list \<Rightarrow> HistoricalFireRecord list" where
  "candidateFires rt env hist =
     js_sort (\<lambda>a b. distanceTo rt env a - distanceTo rt env b)
       (filter (\<lambda>fire. distanceTo rt env fire \<le> adaptiveRadius rt env hist) hist)"

definition nearestFires :: "Runtime \<Rightarrow> EnvironmentalData \<Rightarrow> HistoricalFireRecord list \<Rightarrow> HistoricalFireRecord list" where
  "nearestFires rt env hist = take 15 (candidateFires rt env hist)"

definition activeFireNote :: "Runtime \<Rightarrow> number \<Rightarrow> string" where
  "activeFireNote rt penalty =
     ''\<newline>Active Fire Penalty = '' @ String_of rt (JNumber penalty)
     @ ''. Location is near/inside an active perimeter.''"

text \<open>The end of \<open>getWildfireRisk\<close>, from the level decision on.\<close>

definition riskResult ::
  "Runtime \<Rightarrow> number \<Rightarrow> nat \<Rightarrow> DangerAssessment \<Rightarrow> number \<Rightarrow> string \<Rightarrow> WildfireRiskResult" where
  "riskResult rt radius found basicAssessment totalScore note =
     (let lv = determineRiskLevel totalScore (level basicAssessment)
      in \<lparr> riskLevel = lv,
           riskExplanation =
             ''\<newline>      Adaptive Radius: '' @ String_of rt (JNumber radius) @ '' km''
             @ ''\<newline>      Found '' @ String_of rt (JNumber (Num (real found)))
             @ '' fires within radius''
             @ ''\<newline>      Basic Assessment: '' @ level_name (level basicAssessment)
             @ '' ('' @ description basicAssessment @ '')''
             @ ''\<newline>      Final Score: '' @ toFixed rt totalScore 2 @ '' => ''
             @ level_name lv @ ''.'' @ note @ ''\<newline>    '' \<rparr>)"

definition getWildfireRisk ::
  "Runtime \<Rightarrow> World \<Rightarrow> ModuleState \<Rightarrow> EnvironmentalData \<Rightarrow> ModuleState \<times> (js_error + WildfireRiskResult)" where
  "getWildfireRisk rt w st env =
     (let basicAssessment = assessDangerLevel env;
          st' = loadHistoricalWildfireData rt (fileSystem w) st;
          radius = adaptiveRadius rt env (historicalData st');
          nearest = nearestFires rt env (historicalData st');
          totalScore = computeRiskFromHistoryAndRealTime rt (clock w) env nearest radius
      in (st',
          if ACTIVE_FIRE_URL \<noteq> [] then
            (case getActiveFirePenalty rt (feed w) env of
               Inl e \<Rightarrow> Inl e
             | Inr penalty \<Rightarrow>
                 if penalty > Num 0
                 then Inr (riskResult rt radius (length nearest) basicAssessment
                            (totalScore + penalty) (activeFireNote rt penalty))
                 else Inr (riskResult rt radius (length nearest) basicAssessment totalScore []))
          else Inr (riskResult rt radius (length nearest) basicAssessment totalScore [])))"

section \<open>Notions of the specification\<close>

text \<open>The order of the levels, weakest first, and the stronger of two levels.\<close>

fun level_rank :: "DangerLevel \<Rightarrow> nat" where
  "level_rank NoRisk = 0"
| "level_rank Normal = 1"
| "level_rank Low = 2"
| "level_rank Medium = 3"
| "level_rank High = 4"
| "level_rank VeryHigh = 5"
| "level_rank Extreme = 6"

definition stronger :: "DangerLevel \<Rightarrow> DangerLevel \<Rightarrow> DangerLevel" where
  "stronger a b = (if level_rank a \<ge> level_rank b then a else b)"

text \<open>The distance factor as the specification writes it, on reals.\<close>

definition weight_real :: "real \<Rightarrow> real \<Rightarrow> real" where
  "weight_real R d =
     (if d \<le> 10 then 1 else if R \<le> d then 0.1 else 1 - 0.9 * ((d - 10) / (R - 10)))"

text \<open>The real a number is, for sorting distances that are not \<open>NaN\<close>.\<close>

fun real_of :: "number \<Rightarrow> real" where
  "real_of (Num r) = r"
| "real_of NaN = 0"

text \<open>
  The inclusive axis-aligned bounding box of a list of vertices \<open>(lng, lat)\<close>: a point is
  in it when its latitude lies between the least and the greatest latitude of the
  vertices, and its longitude between the least and the greatest longitude, the bounds
  included.
\<close>

definition in_bounding_box :: "(real \<times> real) list \<Rightarrow> real \<Rightarrow> real \<Rightarrow> bool" where
  "in_bounding_box vertices la lo =
     (Min (snd ` set vertices) \<le> la \<and> la \<le> Max (snd ` set vertices)
      \<and> Min (fst ` set vertices) \<le> lo \<and> lo \<le> Max (fst ` set vertices))"

text \<open>A ring of GeoJSON from its vertices, and the feature of a polygon from its rings.\<close>

definition ring_json :: "(real \<times> real) list \<Rightarrow> jsval" where
  "ring_json vertices =
     JArray (map (\<lambda>(lo, la). JArray [JNumber (Num lo), JNumber (Num la)]) vertices)"

definition polygon_feature :: "jsval list \<Rightarrow> jsval" where
  "polygon_feature rings =
     JObject [(''type'', JString ''Feature''),
              (''geometry'', JObject [(''type'', JString ''Polygon''),
                                       (''coordinates'', JArray rings)])]"

text \<open>A raw entry has numeric coordinates; the area a raw entry gives.\<close>

fun is_number :: "jsval \<Rightarrow> bool" where
  "is_number (JNumber n) = True"
| "is_number _ = False"

definition numeric_coordinates :: "jsval \<Rightarrow> bool" where
  "numeric_coordinates raw =
     (is_number (getProp (getProp raw ''location'') ''latitude'')
      \<and> is_number (getProp (getProp raw ''location'') ''longitude''))"

definition raw_area :: "jsval \<Rightarrow> number" where
  "raw_area raw =
     (case getProp raw ''area_burned'' of
        JNumber a \<Rightarrow> if isNaN a then Num 0 else a
      | _ \<Rightarrow> Num 0)"

text \<open>
  The consecutive-year penalty as the specification words it: the fire years are
  grouped (each year once) and sorted, and every maximal run of consecutive years
  pays by its length.
\<close>

fun run_lengths :: "int list \<Rightarrow> nat list" where
  "run_lengths [] = []"
| "run_lengths [y] = [1]"
| "run_lengths (y # z # ys) =
     (if z = y + 1
      then (case run_lengths (z # ys) of [] \<Rightarrow> [] | n # ns \<Rightarrow> Suc n # ns)
      else 1 # run_lengths (z # ys))"

definition run_penalty :: "nat \<Rightarrow> real" where
  "run_penalty n = (if n = 2 then 0.2 else if n = 3 then 0.5 else if n \<ge> 4 then 1.0 else 0)"

definition spec_consecutive_penalty :: "int list \<Rightarrow> real" where
  "spec_consecutive_penalty years =
     sum_list (map run_penalty (run_lengths (sort (remdups years))))"

text \<open>
  A calendar year as the number \<open>getFullYear\<close> returns, and the end of
  \<open>getConsecutiveYearPenalty\<close>, where the run that is open when the loop ends is paid.
\<close>

definition year_number :: "int \<Rightarrow> number" where
  "year_number y = Num (real_of_int y)"

definition final_run :: "number \<times> nat \<Rightarrow> number" where
  "final_run r =
     (case r of (totalPenalty, consecutiveCount) \<Rightarrow>
        if consecutiveCount \<ge> 2
        then totalPenalty + getPenaltyByConsecutiveCount consecutiveCount
        else totalPenalty)"

section \<open>Sample inputs\<close>

text \<open>
  A runtime for the examples. Its distance is right for two equal points, and the
  examples measure no other distance. It reads the dates of its table as the runtime
  does in the time zone UTC, and any other string as an invalid date. Its case
  conversions are those of the ASCII letters and its \<open>trim\<close> removes spaces. Its
  \<open>parseInt\<close>, \<open>String\<close>, \<open>toFixed\<close>, \<open>compareOther\<close> and \<open>sortWithNaN\<close> are not those of
  the runtime: no example depends on what they return.
\<close>

definition sample_dates :: "(string \<times> JsDate) list" where
  "sample_dates =
     [(''2019-07-01'', \<lparr> getTime = Num 1561939200000, getFullYear = Num 2019, getMonth = Num 6 \<rparr>),
      (''2020-07-01'', \<lparr> getTime = Num 1593561600000, getFullYear = Num 2020, getMonth = Num 6 \<rparr>),
      (''2020-08-01'', \<lparr> getTime = Num 1596240000000, getFullYear = Num 2020, getMonth = Num 7 \<rparr>),
      (''2021-07-01'', \<lparr> getTime = Num 1625097600000, getFullYear = Num 2021, getMonth = Num 6 \<rparr>),
      (''2023-07-01'', \<lparr> getTime = Num 1688169600000, getFullYear = Num 2023, getMonth = Num 6 \<rparr>),
      (''2024-07-01'', \<lparr> getTime = Num 1719792000000, getFullYear = Num 2024, getMonth = Num 6 \<rparr>)]"

definition ascii_lower :: "string \<Rightarrow> string" where
  "ascii_lower =
     map (\<lambda>c. case map_of (zip ''ABCDEFGHIJKLMNOPQRSTUVWXYZ'' ''abcdefghijklmnopqrstuvwxyz'') c of
                 Some l \<Rightarrow> l
               | None \<Rightarrow> c)"

definition ascii_upper :: "string \<Rightarrow> string" where
  "ascii_upper =
     map (\<lambda>c. case map_of (zip ''abcdefghijklmnopqrstuvwxyz'' ''ABCDEFGHIJKLMNOPQRSTUVWXYZ'') c of
                 Some u \<Rightarrow> u
               | None \<Rightarrow> c)"

definition trim_spaces :: "string \<Rightarrow> string" where
  "trim_spaces s =
     rev (dropWhile (\<lambda>c. c = CHR '' '') (rev (dropWhile (\<lambda>c. c = CHR '' '') s)))"

definition sample_runtime :: Runtime where
  "sample_runtime =
     \<lparr> calculateDistance = (\<lambda>la1 lo1 la2 lo2. if la1 = la2 \<and> lo1 = lo2 then Num 0 else NaN),
       newDate = (\<lambda>s. case map_of sample_dates s of
                          Some d \<Rightarrow> d
                        | None \<Rightarrow> \<lparr> getTime = NaN, getFullYear = NaN, getMonth = NaN \<rparr>),
       parseInt = (\<lambda>v. NaN),
       String_of = (\<lambda>v. []),
       toFixed = (\<lambda>x n. []),
       trim = trim_spaces,
       toUpperCase = ascii_upper,
       toLowerCase = ascii_lower,
       compareOther = (\<lambda>a b. None),
       sortWithNaN = (\<lambda>years. years) \<rparr>"

text \<open>A large extreme fire at 50 N 100 W on the given date.\<close>

definition fire_on :: "string \<Rightarrow> HistoricalFireRecord" where
  "fire_on d =
     \<lparr> fire_id = ''unknown-id'', date = d, cause = ''Unknown'', area_burned = Num 1000,
       severity = ''extreme'',
       fire_location = \<lparr> latitude = Num 50, longitude = Num (-100) \<rparr>,
       incident_name = None \<rparr>"

definition empty_store :: ModuleState where
  "empty_store = \<lparr> historicalData = [], loaded = True \<rparr>"

definition one_fire_store :: ModuleState where
  "one_fire_store = \<lparr> historicalData = [fire_on ''2020-07-01''], loaded = True \<rparr>"

text \<open>
  Two worlds that differ in the clock only: 1 January 2021 and 1 January 2031. No file
  can be read and the feed cannot be reached.
\<close>

definition world_2021 :: World where
  "world_2021 =
     \<lparr> fileSystem = (\<lambda>name. FileFailure),
       clock = \<lparr> getTime = Num 1609459200000, getFullYear = Num 2021, getMonth = Num 0 \<rparr>,
       feed = FetchRejected \<rparr>"

definition world_2031 :: World where
  "world_2031 =
     \<lparr> fileSystem = (\<lambda>name. FileFailure),
       clock = \<lparr> getTime = Num 1924992000000, getFullYear = Num 2031, getMonth = Num 0 \<rparr>,
       feed = FetchRejected \<rparr>"

definition hot_env :: EnvironmentalData where
  "hot_env =
     \<lparr> temperature = Num 65, airQuality = None, windSpeed = None, humidity = None,
       drynessIndex = None, timeOfDay = None,
       location = \<lparr> lat = Num 60, lng = Num (-125) \<rparr> \<rparr>"

definition cold_env :: EnvironmentalData where
  "cold_env =
     \<lparr> temperature = Num 0, airQuality = None, windSpeed = None, humidity = None,
       drynessIndex = None, timeOfDay = None,
       location = \<lparr> lat = Num 50, lng = Num (-100) \<rparr> \<rparr>"

definition env_at_5_5 :: EnvironmentalData where
  "env_at_5_5 =
     \<lparr> temperature = Num 20, airQuality = None, windSpeed = None, humidity = None,
       drynessIndex = None, timeOfDay = None,
       location = \<lparr> lat = Num 5, lng = Num 5 \<rparr> \<rparr>"

text \<open>
  A runtime whose distance is the distance along a meridian, 111 km to the degree of
  latitude, for two points of the same longitude; fires on the meridian 100 W, the fire
  \<open>k\<close> lying \<open>k\<close> hundredths of a degree (1.11 km times \<open>k\<close>) north of 50 N; and a store of 22
  of them, the farthest first.
\<close>

definition meridian_runtime :: Runtime where
  "meridian_runtime =
     sample_runtime
       \<lparr> calculateDistance :=
           (\<lambda>la1 lo1 la2 lo2.
              if lo1 = lo2 then (case la1 - la2 of Num d \<Rightarrow> Num (111 * \<bar>d\<bar>) | NaN \<Rightarrow> NaN)
              else NaN) \<rparr>"

definition fire_north :: "nat \<Rightarrow> HistoricalFireRecord" where
  "fire_north k =
     \<lparr> fire_id = ''unknown-id'', date = ''2020-07-01'', cause = ''Unknown'',
       area_burned = Num 1000, severity = ''extreme'',
       fire_location = \<lparr> latitude = Num (50 + real k / 100), longitude = Num (-100) \<rparr>,
       incident_name = None \<rparr>"

definition dense_store :: ModuleState where
  "dense_store =
     \<lparr> historicalData =
         map fire_north [21, 20, 19, 18, 17, 16, 15, 14, 13, 12, 11, 10, 9, 8, 7, 6, 5, 4, 3, 2, 1, 0],
       loaded = True \<rparr>"

text \<open>
  A square perimeter around the point (5, 5), a polygon whose coordinates array is
  empty, and the feed that holds the second before the first.
\<close>

definition square_vertices :: "(real \<times> real) list" where
  "square_vertices = [(0, 0), (10, 0), (10, 10), (0, 10), (0, 0)]"

definition square_feature :: jsval where
  "square_feature = polygon_feature [ring_json square_vertices]"

definition empty_polygon_feature :: jsval where
  "empty_polygon_feature = polygon_feature []"

text \<open>A second square, from 20 to 30, and a multi-polygon from a list of polygons.\<close>

definition far_vertices :: "(real \<times> real) list" where
  "far_vertices = [(20, 20), (30, 20), (30, 30), (20, 30), (20, 20)]"

definition multipolygon_feature :: "jsval list \<Rightarrow> jsval" where
  "multipolygon_feature polygons =
     JObject [(''type'', JString ''Feature''),
              (''geometry'', JObject [(''type'', JString ''MultiPolygon''),
                                       (''coordinates'', JArray polygons)])]"

definition feed_of :: "jsval list \<Rightarrow> FetchResult" where
  "feed_of features =
     Response True ''OK''
       (BodyJson (JObject [(''type'', JString ''FeatureCollection''),
                           (''features'', JArray features)]))"

text \<open>A raw entry with a negative area, the record it becomes, and the file that holds it.\<close>

definition negative_area_entry :: jsval where
  "negative_area_entry =
     JObject [(''date'', JString ''2020-07-01''),
              (''area_burned'', JNumber (Num (-5))),
              (''location'', JObject [(''latitude'', JNumber (Num 50)),
                                       (''longitude'', JNumber (Num (-100)))])]"

definition negative_area_record :: HistoricalFireRecord where
  "negative_area_record =
     \<lparr> fire_id = ''unknown-id'', date = ''2020-07-01'', cause = ''Unknown'',
       area_burned = Num (-5), severity = ''low'',
       fire_location = \<lparr> latitude = Num 50, longitude = Num (-100) \<rparr>,
       incident_name = None \<rparr>"

definition one_file :: "string \<Rightarrow> FileOutcome" where
  "one_file name =
     (if name = ''wildfire_data_2.json'' then FileEntries [negative_area_entry]
      else FileFailure)"

section \<open>Properties of the level decision\<close>

lemma indexOf_dangerLevels: "indexOf dangerLevels l = int (level_rank l)"
  by (cases l) (simp_all add: dangerLevels_def)

lemma dangerLevels_nth: "dangerLevels ! level_rank l = l"
  by (cases l) (simp_all add: dangerLevels_def)

lemma determineRiskLevel_stronger:
  "determineRiskLevel s f = stronger f (scoreBasedRisk s)"
proof -
  have "nat (max (int (level_rank (scoreBasedRisk s))) (int (level_rank f)))
        = level_rank (stronger f (scoreBasedRisk s))"
    by (simp add: stronger_def max_def)
  then show ?thesis
    by (simp add: determineRiskLevel_def indexOf_dangerLevels dangerLevels_nth)
qed

lemma level_rank_stronger: "level_rank (stronger a b) = max (level_rank a) (level_rank b)"
  by (simp add: stronger_def max_def)

text \<open>
  C2. For every total score and every floor level, \<open>determineRiskLevel\<close> returns the
  stronger of the floor and the score-based level, the latter being extreme from 35,
  very high from 20, high from 12, medium from 6, low from 2 and no risk otherwise; so
  the rank of the result is the maximum of the two ranks.
\<close>

theorem final_level_is_stronger:
  "determineRiskLevel s f =
     stronger f (if s \<ge> Num 35 then Extreme
                 else if s \<ge> Num 20 then VeryHigh
                 else if s \<ge> Num 12 then High
                 else if s \<ge> Num 6 then Medium
                 else if s \<ge> Num 2 then Low
                 else NoRisk)
   \<and> level_rank (determineRiskLevel s f) = max (level_rank f) (level_rank (scoreBasedRisk s))"
  using determineRiskLevel_stronger [of s f] level_rank_stronger [of f "scoreBasedRisk s"]
  by (simp add: scoreBasedRisk_def)

theorem final_level_is_stronger_witness:
  "determineRiskLevel (Num 3) High = High \<and> determineRiskLevel (Num 40) Normal = Extreme
   \<and> determineRiskLevel NaN Normal = Normal"
  using final_level_is_stronger [of "Num 3" High] final_level_is_stronger [of "Num 40" Normal]
    final_level_is_stronger [of NaN Normal]
  by (simp add: stronger_def)

text \<open>
  C9. The score-based level is never "normal": it is one of no risk, low, medium, high,
  very high and extreme; so when the final level is "normal", the floor level is
  "normal" (and the score-based level is no risk).
\<close>

theorem score_level_never_normal:
  "scoreBasedRisk s \<in> {NoRisk, Low, Medium, High, VeryHigh, Extreme}
   \<and> (determineRiskLevel s f = Normal \<longrightarrow> f = Normal \<and> scoreBasedRisk s = NoRisk)"
proof -
  have a: "scoreBasedRisk s \<in> {NoRisk, Low, Medium, High, VeryHigh, Extreme}"
    by (simp add: scoreBasedRisk_def)
  have "determineRiskLevel s f = Normal \<Longrightarrow> f = Normal \<and> scoreBasedRisk s = NoRisk"
    using a unfolding determineRiskLevel_stronger stronger_def
    by (cases f) (auto split: if_splits)
  with a show ?thesis by blast
qed

theorem score_level_never_normal_witness:
  "determineRiskLevel (Num 1) Normal = Normal \<and> scoreBasedRisk (Num 1) = NoRisk"
proof -
  have "determineRiskLevel (Num 1) Normal = Normal"
    by (simp add: determineRiskLevel_stronger stronger_def scoreBasedRisk_def)
  then show ?thesis
    using score_level_never_normal [of "Num 1" Normal] by blast
qed

lemma determineRiskLevel_Extreme: "determineRiskLevel s Extreme = Extreme"
  unfolding determineRiskLevel_stronger stronger_def by (cases "scoreBasedRisk s") simp_all

section \<open>Properties of the distance factor\<close>

lemma getDistanceWeight_real:
  "10 < R \<Longrightarrow> getDistanceWeight (Num d) (Num R) = Num (weight_real R d)"
  by (simp add: getDistanceWeight_def weight_real_def Let_def)

lemma ratio_bounds:
  fixes d R :: real
  assumes "10 < d" "d < R"
  shows "0 < (d - 10) / (R - 10)" "(d - 10) / (R - 10) < 1"
  using assms by simp_all

lemma weight_real_bounds: "10 < R \<Longrightarrow> 0.1 \<le> weight_real R d \<and> weight_real R d \<le> 1"
proof -
  assume R: "10 < R"
  show ?thesis
  proof (cases "10 < d \<and> d < R")
    case True
    define q where "q = (d - 10) / (R - 10)"
    have "0 < q" "q < 1"
      using ratio_bounds True unfolding q_def by blast+
    moreover have "weight_real R d = 1 - 0.9 * q"
      using True by (simp add: weight_real_def q_def)
    ultimately show ?thesis by simp
  next
    case False
    then show ?thesis by (auto simp add: weight_real_def)
  qed
qed

lemma weight_real_antimono:
  assumes R: "10 < R" and le: "d \<le> d'"
  shows "weight_real R d' \<le> weight_real R d"
proof (cases "d \<le> 10")
  case True
  then have "weight_real R d = 1" by (simp add: weight_real_def)
  then show ?thesis using weight_real_bounds [OF R, of d'] by simp
next
  case d10: False
  show ?thesis
  proof (cases "R \<le> d'")
    case True
    then have "weight_real R d' = 0.1" using d10 le by (simp add: weight_real_def)
    then show ?thesis using weight_real_bounds [OF R, of d] by simp
  next
    case False
    define q where "q = (d - 10) / (R - 10)"
    define q' where "q' = (d' - 10) / (R - 10)"
    have "q \<le> q'"
      unfolding q_def q'_def using R le by (simp add: divide_right_mono)
    moreover have "weight_real R d = 1 - 0.9 * q" "weight_real R d' = 1 - 0.9 * q'"
      using d10 False le by (simp_all add: weight_real_def q_def q'_def)
    ultimately show ?thesis by simp
  qed
qed

text \<open>
  C6. For a search radius \<open>R\<close> above 10 km, the distance factor is 1.0 up to 10 km, is 0.1
  at the radius and beyond, is \<open>1.0 - 0.9 * (d - 10) / (R - 10)\<close> in between, never
  exceeds 1.0, and does not increase when the distance grows.
\<close>

theorem distance_factor_shape:
  assumes "10 < R"
  shows "(d \<le> 10 \<longrightarrow> getDistanceWeight (Num d) (Num R) = Num 1.0)
    \<and> (R \<le> d \<longrightarrow> getDistanceWeight (Num d) (Num R) = Num 0.1)
    \<and> (10 < d \<and> d < R \<longrightarrow>
         getDistanceWeight (Num d) (Num R) = Num (1.0 - 0.9 * (d - 10) / (R - 10)))
    \<and> getDistanceWeight (Num d) (Num R) \<le> Num 1.0
    \<and> (d \<le> d' \<longrightarrow> getDistanceWeight (Num d') (Num R) \<le> getDistanceWeight (Num d) (Num R))"
  using assms weight_real_bounds [OF assms, of d] weight_real_antimono [OF assms, of d d']
  by (simp add: getDistanceWeight_real) (simp add: weight_real_def)

theorem distance_factor_shape_witness:
  "getDistanceWeight (Num 5) (Num 50) = Num 1
   \<and> getDistanceWeight (Num 50) (Num 50) = Num 0.1
   \<and> getDistanceWeight (Num 30) (Num 50) = Num 0.55
   \<and> getDistanceWeight (Num 40) (Num 50) \<le> getDistanceWeight (Num 30) (Num 50)"
proof -
  have R: "(10::real) < 50" by simp
  have a: "getDistanceWeight (Num 5) (Num 50) = Num 1"
    using distance_factor_shape [OF R, of 5 5] by simp
  have b: "getDistanceWeight (Num 50) (Num 50) = Num 0.1"
    using distance_factor_shape [OF R, of 50 50] by simp
  have c: "getDistanceWeight (Num 30) (Num 50) = Num 0.55"
    using distance_factor_shape [OF R, of 30 40] by simp
  have "(30::real) \<le> 40" by simp
  then have d: "getDistanceWeight (Num 40) (Num 50) \<le> getDistanceWeight (Num 30) (Num 50)"
    using distance_factor_shape [OF R, of 30 40] by blast
  from a b c d show ?thesis by blast
qed

section \<open>Properties of the entry point\<close>

lemma assess_extreme: "Num 60 \<le> temperature env \<Longrightarrow> level (assessDangerLevel env) = Extreme"
proof -
  assume "Num 60 \<le> temperature env"
  then have t: "tempLevel (temperature env) = Extreme" by (simp add: tempLevel_def)
  have "level_rank (aqiLevel (airQuality env)) \<le> 6"
    by (cases "aqiLevel (airQuality env)") simp_all
  then have "nat (max (int (level_rank Extreme)) (int (level_rank (aqiLevel (airQuality env)))))
             = level_rank Extreme"
    by simp
  then show ?thesis
    unfolding assessDangerLevel_def Let_def t indexOf_dangerLevels
    by (simp add: dangerLevels_nth del: level_rank.simps)
qed

lemma getActiveFirePenalty_returns: "\<exists>p. getActiveFirePenalty rt fetch env = Inr p"
  by (simp add: getActiveFirePenalty_def split: sum.splits)

text \<open>
  C1. When the temperature is at least 60, \<open>assessDangerLevel\<close> gives the level extreme,
  and \<open>getWildfireRisk\<close> returns a result whose level is extreme, whatever the other
  fields, the historical store and the files, the clock and the feed.
\<close>

theorem extreme_temperature_dominates:
  assumes "Num 60 \<le> temperature env"
  shows "level (assessDangerLevel env) = Extreme
    \<and> (\<exists>r. snd (getWildfireRisk rt w st env) = Inr r \<and> riskLevel r = Extreme)"
proof -
  have a: "level (assessDangerLevel env) = Extreme" using assms by (rule assess_extreme)
  obtain p where p: "getActiveFirePenalty rt (feed w) env = Inr p"
    using getActiveFirePenalty_returns by blast
  have "\<exists>r. snd (getWildfireRisk rt w st env) = Inr r \<and> riskLevel r = Extreme"
    by (simp add: getWildfireRisk_def Let_def p riskResult_def a determineRiskLevel_Extreme)
  with a show ?thesis by blast
qed

theorem extreme_temperature_dominates_witness:
  "Num 60 \<le> temperature hot_env
   \<and> level (assessDangerLevel hot_env) = Extreme
   \<and> (\<exists>r. snd (getWildfireRisk sample_runtime world_2021 empty_store hot_env) = Inr r
           \<and> riskLevel r = Extreme)"
proof -
  have h: "Num 60 \<le> temperature hot_env" by (simp add: hot_env_def)
  show ?thesis
    using h extreme_temperature_dominates [OF h, of sample_runtime world_2021 empty_store]
    by blast
qed

section \<open>Properties of the candidate selection\<close>

lemma insert_by_insort_key:
  assumes "k x \<noteq> NaN" "\<forall>y\<in>set ys. k y \<noteq> NaN"
  shows "insert_by (\<lambda>a b. k a - k b) x ys = insort_key (\<lambda>f. real_of (k f)) x ys"
  using assms
proof (induction ys)
  case Nil
  then show ?case by simp
next
  case (Cons y ys)
  obtain a where a: "k x = Num a" using Cons.prems(1) by (cases "k x") simp_all
  obtain b where b: "k y = Num b" using Cons.prems(2) by (cases "k y") simp_all
  show ?case using Cons a b by auto
qed

lemma js_sort_sort_key:
  assumes "\<forall>x\<in>set xs. k x \<noteq> NaN"
  shows "js_sort (\<lambda>a b. k a - k b) xs = sort_key (\<lambda>f. real_of (k f)) xs"
  using assms
proof (induction xs)
  case Nil
  then show ?case by (simp add: js_sort_def)
next
  case (Cons x xs)
  then have ih: "foldr (insert_by (\<lambda>a b. k a - k b)) xs [] = sort_key (\<lambda>f. real_of (k f)) xs"
    by (simp add: js_sort_def)
  have "\<forall>y\<in>set (sort_key (\<lambda>f. real_of (k f)) xs). k y \<noteq> NaN"
    using Cons.prems by simp
  then show ?case
    using Cons.prems ih by (simp add: js_sort_def insert_by_insort_key)
qed

lemma within_not_NaN: "x \<le> r \<Longrightarrow> x \<noteq> NaN"
  by (cases x) simp_all

lemma candidateFires_sort_key:
  "candidateFires rt env hist =
     sort_key (\<lambda>f. real_of (distanceTo rt env f))
       (filter (\<lambda>f. distanceTo rt env f \<le> adaptiveRadius rt env hist) hist)"
  unfolding candidateFires_def
  by (rule js_sort_sort_key) (auto dest: within_not_NaN)

lemma sample_distance: "distanceTo sample_runtime cold_env (fire_on d) = Num 0"
  by (simp add: distanceTo_def sample_runtime_def cold_env_def fire_on_def)

lemma meridian_distance:
  "distanceTo meridian_runtime cold_env (fire_north k) = Num (111 * real k / 100)"
  by (simp add: distanceTo_def meridian_runtime_def cold_env_def fire_north_def)

text \<open>
  C4. In a call of \<open>getWildfireRisk\<close>, with \<open>n\<close> the number of records of the loaded
  collection within 50 km of the point, the working radius is 30 km if \<open>n > 20\<close>, 75 km
  if \<open>n < 5\<close> and 50 km otherwise. The candidates are the records within the working
  radius, sorted by ascending distance (records at the same distance staying in the
  order of the collection) and cut to the first 15. The result of the call is built
  from the score that \<open>computeRiskFromHistoryAndRealTime\<close> gives for exactly these
  candidates and this radius, from the radius and from the number of the candidates.
\<close>

theorem nearest_candidates:
  "let hist = historicalData (loadHistoricalWildfireData rt (fileSystem w) st);
       n = length (filter (\<lambda>f. distanceTo rt env f \<le> Num 50) hist);
       radius = (if n > 20 then Num 30 else if n < 5 then Num 75 else Num 50);
       candidates =
         take 15 (sort_key (\<lambda>f. real_of (distanceTo rt env f))
                    (filter (\<lambda>f. distanceTo rt env f \<le> radius) hist));
       score = computeRiskFromHistoryAndRealTime rt (clock w) env candidates radius
   in adaptiveRadius rt env hist = radius
    \<and> nearestFires rt env hist = candidates
    \<and> sorted (map (\<lambda>f. real_of (distanceTo rt env f)) candidates)
    \<and> length candidates \<le> 15
    \<and> (\<exists>penalty. getActiveFirePenalty rt (feed w) env = Inr penalty
          \<and> snd (getWildfireRisk rt w st env) =
              Inr (if penalty > Num 0
                   then riskResult rt radius (length candidates) (assessDangerLevel env)
                          (score + penalty) (activeFireNote rt penalty)
                   else riskResult rt radius (length candidates) (assessDangerLevel env)
                          score []))"
proof -
  define hist where "hist = historicalData (loadHistoricalWildfireData rt (fileSystem w) st)"
  define n where "n = length (filter (\<lambda>f. distanceTo rt env f \<le> Num 50) hist)"
  define radius where "radius = (if n > 20 then Num 30 else if n < 5 then Num 75 else Num 50)"
  define candidates where "candidates =
         take 15 (sort_key (\<lambda>f. real_of (distanceTo rt env f))
                    (filter (\<lambda>f. distanceTo rt env f \<le> radius) hist))"
  define score where
    "score = computeRiskFromHistoryAndRealTime rt (clock w) env candidates radius"
  have r: "adaptiveRadius rt env hist = radius"
    by (simp add: adaptiveRadius_def quickCandidate_def Let_def radius_def n_def)
  have c: "nearestFires rt env hist = candidates"
    by (simp add: nearestFires_def candidateFires_sort_key r candidates_def)
  have s: "sorted (map (\<lambda>f. real_of (distanceTo rt env f)) candidates)"
    unfolding candidates_def by (simp add: take_map [symmetric])
  have l: "length candidates \<le> 15"
    by (simp add: candidates_def)
  obtain penalty where p: "getActiveFirePenalty rt (feed w) env = Inr penalty"
    using getActiveFirePenalty_returns by blast
  have u: "ACTIVE_FIRE_URL \<noteq> []"
    by (simp add: ACTIVE_FIRE_URL_def)
  have g: "snd (getWildfireRisk rt w st env) =
              Inr (if penalty > Num 0
                   then riskResult rt radius (length candidates) (assessDangerLevel env)
                          (score + penalty) (activeFireNote rt penalty)
                   else riskResult rt radius (length candidates) (assessDangerLevel env)
                          score [])"
    unfolding getWildfireRisk_def Let_def hist_def [symmetric] r c score_def [symmetric]
    by (simp add: u p)
  show ?thesis
    unfolding Let_def hist_def [symmetric] n_def [symmetric] radius_def [symmetric]
      candidates_def [symmetric] score_def [symmetric]
    using r c s l p g by blast
qed

text \<open>
  An instance with 22 records within 50 km, stored with the farthest first: the radius
  is tightened to 30 km, the sort reverses the order, and the 15 nearest are kept.
\<close>

lemma dense_store_loaded:
  "loadHistoricalWildfireData rt fs dense_store = dense_store"
  by (simp add: loadHistoricalWildfireData_def dense_store_def)

lemma dense_candidates:
  "take 15 (sort_key (\<lambda>f. real_of (distanceTo meridian_runtime cold_env f))
              (filter (\<lambda>f. distanceTo meridian_runtime cold_env f \<le> Num 30)
                 (historicalData dense_store)))
   = map fire_north [0, 1, 2, 3, 4, 5, 6, 7, 8, 9, 10, 11, 12, 13, 14]"
  by (simp add: dense_store_def meridian_distance)

theorem nearest_candidates_witness:
  "adaptiveRadius meridian_runtime cold_env (historicalData dense_store) = Num 30
   \<and> nearestFires meridian_runtime cold_env (historicalData dense_store)
       = map fire_north [0, 1, 2, 3, 4, 5, 6, 7, 8, 9, 10, 11, 12, 13, 14]
   \<and> snd (getWildfireRisk meridian_runtime world_2021 dense_store cold_env)
       = Inr (riskResult meridian_runtime (Num 30) 15 (assessDangerLevel cold_env)
                (computeRiskFromHistoryAndRealTime meridian_runtime (clock world_2021) cold_env
                   (map fire_north [0, 1, 2, 3, 4, 5, 6, 7, 8, 9, 10, 11, 12, 13, 14]) (Num 30))
                [])"
proof -
  have n: "length (filter (\<lambda>f. distanceTo meridian_runtime cold_env f \<le> Num 50)
                     (historicalData dense_store)) = 22"
    by (simp add: dense_store_def meridian_distance)
  have rad: "(if (22::nat) > 20 then Num 30 else if (22::nat) < 5 then Num 75 else Num 50)
             = Num 30"
    by simp
  have len: "length (map fire_north [0, 1, 2, 3, 4, 5, 6, 7, 8, 9, 10, 11, 12, 13, 14]) = 15"
    by simp
  have f: "getActiveFirePenalty meridian_runtime (feed world_2021) cold_env = Inr (Num 0)"
    by (simp add: getActiveFirePenalty_def tryBlock_def world_2021_def)
  note t = nearest_candidates [of meridian_runtime world_2021 dense_store cold_env,
      unfolded Let_def dense_store_loaded n rad dense_candidates f len]
  from t have a: "adaptiveRadius meridian_runtime cold_env (historicalData dense_store) = Num 30"
    and b: "nearestFires meridian_runtime cold_env (historicalData dense_store)
       = map fire_north [0, 1, 2, 3, 4, 5, 6, 7, 8, 9, 10, 11, 12, 13, 14]"
    by blast+
  from t obtain penalty where p: "Inr (Num 0) = (Inr penalty :: js_error + number)"
    and g: "snd (getWildfireRisk meridian_runtime world_2021 dense_store cold_env) =
       Inr (if penalty > Num 0
            then riskResult meridian_runtime (Num 30) 15 (assessDangerLevel cold_env)
                   (computeRiskFromHistoryAndRealTime meridian_runtime (clock world_2021) cold_env
                      (map fire_north [0, 1, 2, 3, 4, 5, 6, 7, 8, 9, 10, 11, 12, 13, 14]) (Num 30)
                    + penalty)
                   (activeFireNote meridian_runtime penalty)
            else riskResult meridian_runtime (Num 30) 15 (assessDangerLevel cold_env)
                   (computeRiskFromHistoryAndRealTime meridian_runtime (clock world_2021) cold_env
                      (map fire_north [0, 1, 2, 3, 4, 5, 6, 7, 8, 9, 10, 11, 12, 13, 14]) (Num 30))
                   [])"
    by blast
  from p have z: "penalty = Num 0" by simp
  have ng: "\<not> (Num 0 > Num 0)" by simp
  have c: "snd (getWildfireRisk meridian_runtime world_2021 dense_store cold_env)
       = Inr (riskResult meridian_runtime (Num 30) 15 (assessDangerLevel cold_env)
                (computeRiskFromHistoryAndRealTime meridian_runtime (clock world_2021) cold_env
                   (map fire_north [0, 1, 2, 3, 4, 5, 6, 7, 8, 9, 10, 11, 12, 13, 14]) (Num 30))
                [])"
    using g ng unfolding z by (simp only: if_False)
  from a b c show ?thesis by blast
qed

section \<open>Properties of the scoring function\<close>

lemma nonneg_add: "Num 0 \<le> a \<Longrightarrow> Num 0 \<le> b \<Longrightarrow> Num 0 \<le> a + b"
  by (cases a; cases b) simp_all

lemma nonneg_mult: "Num 0 \<le> a \<Longrightarrow> Num 0 \<le> b \<Longrightarrow> Num 0 \<le> a * b"
  by (cases a; cases b) simp_all

lemma bound_add: "Num c \<le> t \<Longrightarrow> Num 0 \<le> b \<Longrightarrow> Num c \<le> t + b"
  by (cases t; cases b) simp_all

lemma recency_nonneg: "Num 0 \<le> getRecencyFactor rt now s"
  by (simp add: getRecencyFactor_def Let_def)

lemma cause_nonneg: "Num 0 \<le> getCauseFactor rt c"
  by (simp add: getCauseFactor_def Let_def)

lemma seasonality_nonneg: "Num 0 \<le> getSeasonalityFactor rt now s la lo"
  by (simp add: getSeasonalityFactor_def Let_def)

lemma severity_nonneg: "Num 0 \<le> adjustSeverityForLandscape rt s y Unknown"
  by (simp add: adjustSeverityForLandscape_def Let_def)

lemma distance_weight_nonneg:
  assumes "d \<le> R"
  shows "Num 0 \<le> getDistanceWeight d R"
proof -
  obtain a b where ab: "d = Num a" "R = Num b" "a \<le> b"
    using assms by (cases d; cases R) simp_all
  show ?thesis
  proof (cases "10 < a \<and> a < b")
    case True
    then have "10 < b" by simp
    then show ?thesis
      using weight_real_bounds [of b a] by (simp add: ab getDistanceWeight_real)
  next
    case False
    then show ?thesis using ab by (auto simp add: getDistanceWeight_def)
  qed
qed

lemma fireScore_nonneg:
  assumes "distanceTo rt env fire \<le> maxRadius"
  shows "Num 0 \<le> fireScore rt now env maxRadius fire"
proof -
  have area: "Num 0 \<le> (if area_burned fire > Num 500 then Num 1.5 else Num 1.0)" by simp
  show ?thesis
    unfolding fireScore_def Let_def
    by (intro nonneg_mult severity_nonneg area recency_nonneg cause_nonneg
          seasonality_nonneg distance_weight_nonneg assms)
qed

lemma foldl_add_nonneg:
  assumes "Num 0 \<le> acc" "\<forall>f\<in>set fires. Num 0 \<le> g f"
  shows "Num 0 \<le> foldl (\<lambda>acc f. acc + g f) acc fires"
  using assms by (induction fires arbitrary: acc) (simp_all add: nonneg_add)

lemma penalty_count_nonneg: "Num 0 \<le> getPenaltyByConsecutiveCount n"
  by (simp add: getPenaltyByConsecutiveCount_def)

lemma consecutiveLoop_nonneg:
  "Num 0 \<le> tot \<Longrightarrow> Num 0 \<le> fst (consecutiveLoop ys tot c)"
proof (induction ys tot c rule: consecutiveLoop.induct)
  case (1 a b rest totalPenalty consecutiveCount)
  then show ?case by (simp add: nonneg_add penalty_count_nonneg)
qed simp_all

lemma consecutive_penalty_nonneg: "Num 0 \<le> getConsecutiveYearPenalty rt fires"
proof (cases "length fires < 2")
  case True
  then show ?thesis by (simp add: getConsecutiveYearPenalty_def)
next
  case False
  define years where "years = sortYears rt (map (fireYear rt) fires)"
  obtain t c where tc: "consecutiveLoop years (Num 0) 1 = (t, c)"
    by (cases "consecutiveLoop years (Num 0) 1")
  have "Num 0 \<le> fst (consecutiveLoop years (Num 0) 1)"
    by (rule consecutiveLoop_nonneg) simp
  then have t: "Num 0 \<le> t" unfolding tc by simp
  have "getConsecutiveYearPenalty rt fires =
          (if c \<ge> 2 then t + getPenaltyByConsecutiveCount c else t)"
    using False tc by (simp add: getConsecutiveYearPenalty_def Let_def years_def)
  then show ?thesis using t by (simp add: nonneg_add penalty_count_nonneg)
qed

lemma overlap_step_nonneg:
  "Num 0 \<le> p \<Longrightarrow>
   Num 0 \<le> foldl (\<lambda>penalty (y, count).
                  if count > 1 then penalty + (Num (real count) - Num 1) * Num 0.1
                  else penalty) p (yc :: (number \<times> nat) list)"
proof (induction yc arbitrary: p)
  case Nil
  then show ?case by simp
next
  case (Cons a yc)
  obtain y n where a: "a = (y, n)" by (cases a)
  have "Num 0 \<le> (if n > 1 then p + (Num (real n) - Num 1) * Num 0.1 else p)"
    using Cons.prems by (cases p) auto
  then show ?case using Cons.IH a by simp
qed

lemma overlap_penalty_nonneg: "Num 0 \<le> getOverlappingFiresPenalty rt fires"
  unfolding getOverlappingFiresPenalty_def Let_def
  by (rule overlap_step_nonneg) simp

lemma base_total_bound:
  assumes "Num 0 \<le> h" "Num 0 \<le> c" "Num 0 \<le> ov"
  shows "Num (real n) \<le> h + c + ov + Num (real n)"
  using assms by (cases h; cases c; cases ov) simp_all

lemma score_lower_bound:
  assumes "\<forall>f\<in>set fires. distanceTo rt env f \<le> maxRadius"
  shows "Num (real (min (length fires) 5))
           \<le> computeRiskFromHistoryAndRealTime rt now env fires maxRadius"
proof -
  let ?c = "Num (real (min (length fires) 5))"
  have h: "Num 0 \<le> foldl (\<lambda>acc fire. acc + fireScore rt now env maxRadius fire) (Num 0) fires"
    by (rule foldl_add_nonneg) (simp_all add: assms fireScore_nonneg)
  define t0 where "t0 =
      foldl (\<lambda>acc fire. acc + fireScore rt now env maxRadius fire) (Num 0) fires
      + getConsecutiveYearPenalty rt fires + getOverlappingFiresPenalty rt fires + ?c"
  define t1 where "t1 =
      (if temperature env \<ge> Num 60 then t0 + Num 20
       else if temperature env \<ge> Num 45 then t0 + Num 10
       else if temperature env \<ge> Num 35 then t0 + Num 5
       else if temperature env \<ge> Num 25 then t0 + Num 2
       else t0)"
  define t2 where "t2 =
      (case airQuality env of
         None \<Rightarrow> t1
       | Some aq \<Rightarrow>
           if aq \<ge> Num 300 then t1 + Num 5
           else if aq \<ge> Num 200 then t1 + Num 3
           else if aq \<ge> Num 150 then t1 + Num 2
           else if aq \<ge> Num 100 then t1 + Num 1
           else t1)"
  define t3 where "t3 =
      (case drynessIndex env of
         None \<Rightarrow> t2
       | Some dr \<Rightarrow>
           if dr \<ge> Num 90 then t2 + Num 8
           else if dr \<ge> Num 80 then t2 + Num 5
           else if dr \<ge> Num 60 then t2 + Num 2
           else t2)"
  define t4 where "t4 =
      (case humidity env of
         None \<Rightarrow> t3
       | Some h \<Rightarrow>
           if h < Num 10 then t3 + Num 6
           else if h < Num 20 then t3 + Num 3
           else if h < Num 30 then t3 + Num 1
           else t3)"
  define t5 where "t5 =
      (case windSpeed env of
         None \<Rightarrow> t4
       | Some w \<Rightarrow>
           if w > Num 60 then t4 + Num 8
           else if w > Num 40 then t4 + Num 4
           else if w > Num 25 then t4 + Num 2
           else t4)"
  define t6 where "t6 =
      (case timeOfDay env of
         None \<Rightarrow> t5
       | Some t \<Rightarrow> if t \<ge> Num 13 \<and> t \<le> Num 17 then t5 + Num 1 else t5)"
  have b0: "?c \<le> t0"
    unfolding t0_def
    by (rule base_total_bound [OF h consecutive_penalty_nonneg overlap_penalty_nonneg])
  have b1: "?c \<le> t1" unfolding t1_def using b0 by (simp add: bound_add)
  have b2: "?c \<le> t2" unfolding t2_def using b1 by (simp add: bound_add split: option.split)
  have b3: "?c \<le> t3" unfolding t3_def using b2 by (simp add: bound_add split: option.split)
  have b4: "?c \<le> t4" unfolding t4_def using b3 by (simp add: bound_add split: option.split)
  have b5: "?c \<le> t5" unfolding t5_def using b4 by (simp add: bound_add split: option.split)
  have b6: "?c \<le> t6" unfolding t6_def using b5 by (simp add: bound_add split: option.split)
  have "computeRiskFromHistoryAndRealTime rt now env fires maxRadius = t6"
    unfolding computeRiskFromHistoryAndRealTime_def Let_def t6_def t5_def t4_def t3_def t2_def
      t1_def t0_def
    by (rule refl)
  with b6 show ?thesis by simp
qed

lemma score_level_low:
  assumes "Num 2 \<le> s"
  shows "level_rank Low \<le> level_rank (scoreBasedRisk s)"
  using assms by (simp add: scoreBasedRisk_def)

lemma Num_le_trans: "Num a \<le> Num b \<Longrightarrow> Num b \<le> x \<Longrightarrow> Num a \<le> x"
  by (cases x) simp_all

text \<open>
  C10. For fires that are candidates, that is, within the search radius of the point,
  the total of the scorer is at least the frequency score \<open>min(n, 5)\<close>; so with two
  candidates or more the score-based level is at least low. (Nothing is asked of the
  environmental input: a field that is \<open>NaN\<close> only fails its comparisons.)
\<close>

theorem score_at_least_frequency:
  assumes "\<forall>f\<in>set fires. distanceTo rt env f \<le> maxRadius"
  shows "Num (real (min (length fires) 5))
           \<le> computeRiskFromHistoryAndRealTime rt now env fires maxRadius
    \<and> (2 \<le> length fires \<longrightarrow>
         level_rank Low
           \<le> level_rank (scoreBasedRisk (computeRiskFromHistoryAndRealTime rt now env fires maxRadius)))"
proof -
  note b = score_lower_bound [OF assms, of now]
  have "2 \<le> length fires \<Longrightarrow>
        Num 2 \<le> computeRiskFromHistoryAndRealTime rt now env fires maxRadius"
    by (rule Num_le_trans [OF _ b]) simp
  then show ?thesis using b score_level_low by blast
qed

theorem score_at_least_frequency_witness:
  "distanceTo sample_runtime cold_env (fire_on ''2019-07-01'') \<le> Num 75
   \<and> distanceTo sample_runtime cold_env (fire_on ''2020-07-01'') \<le> Num 75
   \<and> Num 2 \<le> computeRiskFromHistoryAndRealTime sample_runtime (clock world_2021) cold_env
               [fire_on ''2019-07-01'', fire_on ''2020-07-01''] (Num 75)
   \<and> level_rank Low
       \<le> level_rank (scoreBasedRisk
            (computeRiskFromHistoryAndRealTime sample_runtime (clock world_2021) cold_env
               [fire_on ''2019-07-01'', fire_on ''2020-07-01''] (Num 75)))"
proof -
  have d: "distanceTo sample_runtime cold_env (fire_on ''2019-07-01'') \<le> Num 75"
      "distanceTo sample_runtime cold_env (fire_on ''2020-07-01'') \<le> Num 75"
    by (simp_all add: sample_distance)
  then have h: "\<forall>f\<in>set [fire_on ''2019-07-01'', fire_on ''2020-07-01''].
                  distanceTo sample_runtime cold_env f \<le> Num 75"
    by simp
  show ?thesis
    using d score_at_least_frequency [OF h, of "clock world_2021"] by simp
qed

text \<open>
  The fires that the entry point selects are within the working radius, so the bound
  holds for the score it computes, whatever the input and the store.
\<close>

lemma nearest_within_radius:
  "\<forall>f\<in>set (nearestFires rt env hist). distanceTo rt env f \<le> adaptiveRadius rt env hist"
proof
  fix f assume "f \<in> set (nearestFires rt env hist)"
  then have "f \<in> set (candidateFires rt env hist)"
    unfolding nearestFires_def by (rule in_set_takeD)
  then show "distanceTo rt env f \<le> adaptiveRadius rt env hist"
    by (simp add: candidateFires_sort_key)
qed

lemma selected_score_at_least_frequency:
  "Num (real (min (length (nearestFires rt env hist)) 5))
     \<le> computeRiskFromHistoryAndRealTime rt now env (nearestFires rt env hist)
          (adaptiveRadius rt env hist)"
  by (rule score_lower_bound [OF nearest_within_radius])

section \<open>Properties of the active-fire check\<close>

text \<open>The check returns 0 or 5, and 0 whenever the feed gave no usable feature list.\<close>

lemma scanFeatures_values:
  "scanFeatures rt la lo fs = Inr p \<Longrightarrow> p = Num 0 \<or> p = Num 5"
  by (induction fs) (auto simp add: Let_def split: if_splits sum.splits)

lemma active_fire_penalty_values:
  "getActiveFirePenalty rt fetch env = Inr (Num 0)
   \<or> getActiveFirePenalty rt fetch env = Inr (Num 5)"
proof (cases "tryBlock rt fetch env")
  case (Inl e)
  then show ?thesis by (simp add: getActiveFirePenalty_def)
next
  case (Inr p)
  then have "p = Num 0 \<or> p = Num 5"
    by (auto simp add: tryBlock_def dest: scanFeatures_values
          split: FetchResult.splits if_splits FeedBody.splits jsval.splits)
  then show ?thesis using Inr by (auto simp add: getActiveFirePenalty_def)
qed

lemma no_penalty_without_features:
  "getActiveFirePenalty rt FetchRejected env = Inr (Num 0)"
  "getActiveFirePenalty rt (Response False statusText body) env = Inr (Num 0)"
  "getActiveFirePenalty rt (Response True statusText BodyUnreadable) env = Inr (Num 0)"
  "getActiveFirePenalty rt (Response True statusText (BodyJson JNull)) env = Inr (Num 0)"
  "\<not> truthy (getProp doc ''features'')
   \<Longrightarrow> getActiveFirePenalty rt (Response True statusText (BodyJson doc)) env = Inr (Num 0)"
  "getActiveFirePenalty rt (Response True statusText (BodyJson (JObject [(''features'', JArray [])])))
     env = Inr (Num 0)"
  by (auto simp add: getActiveFirePenalty_def tryBlock_def split: jsval.splits sum.splits)

text \<open>
  The box of a ring of numeric positions, started from a box of numbers: its entries
  are numbers again, each the least or the greatest of the start and the coordinates.
\<close>

lemma destructure2_position:
  "destructure2 (JArray [JNumber (Num lo), JNumber (Num la)])
   = Inr (JNumber (Num lo), JNumber (Num la))"
  by (simp add: destructure2_def)

lemma ringBox_numeric:
  fixes a b c d :: real
  shows "\<exists>a' b' c' d'.
     ringBox rt (JNumber (Num a), JNumber (Num b), JNumber (Num c), JNumber (Num d))
       (ring_json vertices)
       = Inr (JNumber (Num a'), JNumber (Num b'), JNumber (Num c'), JNumber (Num d'))
     \<and> (\<forall>y. a' \<le> y \<longleftrightarrow> a \<le> y \<or> (\<exists>p\<in>set vertices. snd p \<le> y))
     \<and> (\<forall>x. b' \<le> x \<longleftrightarrow> b \<le> x \<or> (\<exists>p\<in>set vertices. fst p \<le> x))
     \<and> (\<forall>y. y \<le> c' \<longleftrightarrow> y \<le> c \<or> (\<exists>p\<in>set vertices. y \<le> snd p))
     \<and> (\<forall>x. x \<le> d' \<longleftrightarrow> x \<le> d \<or> (\<exists>p\<in>set vertices. x \<le> fst p))"
proof (induction vertices arbitrary: a b c d)
  case Nil
  then show ?case by (simp add: ringBox_def ring_json_def)
next
  case (Cons p vertices)
  obtain lo la where p: "p = (lo, la)" by (cases p)
  obtain a' b' c' d' where
    f: "ringBox rt (JNumber (Num (min a la)), JNumber (Num (min b lo)),
                    JNumber (Num (max c la)), JNumber (Num (max d lo))) (ring_json vertices)
          = Inr (JNumber (Num a'), JNumber (Num b'), JNumber (Num c'), JNumber (Num d'))"
    and a': "\<forall>y. a' \<le> y \<longleftrightarrow> min a la \<le> y \<or> (\<exists>p\<in>set vertices. snd p \<le> y)"
    and b': "\<forall>x. b' \<le> x \<longleftrightarrow> min b lo \<le> x \<or> (\<exists>p\<in>set vertices. fst p \<le> x)"
    and c': "\<forall>y. y \<le> c' \<longleftrightarrow> y \<le> max c la \<or> (\<exists>p\<in>set vertices. y \<le> snd p)"
    and d': "\<forall>x. x \<le> d' \<longleftrightarrow> x \<le> max d lo \<or> (\<exists>p\<in>set vertices. x \<le> fst p)"
    using Cons.IH [of "min a la" "min b lo" "max c la" "max d lo"] by blast
  have s: "extendBox rt (JNumber (Num a), JNumber (Num b), JNumber (Num c), JNumber (Num d))
             (JNumber (Num lo), JNumber (Num la))
           = (JNumber (Num (min a la)), JNumber (Num (min b lo)),
              JNumber (Num (max c la)), JNumber (Num (max d lo)))"
    by (simp add: min_def max_def)
  have "ringBox rt (JNumber (Num a), JNumber (Num b), JNumber (Num c), JNumber (Num d))
          (ring_json (p # vertices))
        = ringBox rt (JNumber (Num (min a la)), JNumber (Num (min b lo)),
                      JNumber (Num (max c la)), JNumber (Num (max d lo))) (ring_json vertices)"
    unfolding p ringBox_def ring_json_def
    by (simp add: destructure2_position s del: extendBox.simps)
  then have "ringBox rt (JNumber (Num a), JNumber (Num b), JNumber (Num c), JNumber (Num d))
          (ring_json (p # vertices))
        = Inr (JNumber (Num a'), JNumber (Num b'), JNumber (Num c'), JNumber (Num d'))"
    using f by simp
  moreover have "\<forall>y. a' \<le> y \<longleftrightarrow> a \<le> y \<or> (\<exists>q\<in>set (p # vertices). snd q \<le> y)"
    using a' by (auto simp add: p min_le_iff_disj)
  moreover have "\<forall>x. b' \<le> x \<longleftrightarrow> b \<le> x \<or> (\<exists>q\<in>set (p # vertices). fst q \<le> x)"
    using b' by (auto simp add: p min_le_iff_disj)
  moreover have "\<forall>y. y \<le> c' \<longleftrightarrow> y \<le> c \<or> (\<exists>q\<in>set (p # vertices). y \<le> snd q)"
    using c' by (auto simp add: p le_max_iff_disj)
  moreover have "\<forall>x. x \<le> d' \<longleftrightarrow> x \<le> d \<or> (\<exists>q\<in>set (p # vertices). x \<le> fst q)"
    using d' by (auto simp add: p le_max_iff_disj)
  ultimately show ?case by blast
qed

text \<open>
  For a polygon whose first ring has at least one vertex and only vertices with
  coordinates from -9999 to 9999, the box that \<open>getBoundingBox\<close> computes, tested by
  \<open>isPointInBoundingBox\<close>, is the inclusive bounding box of the vertices of that ring.
\<close>

lemma polygon_box_is_bounding_box:
  assumes "vertices \<noteq> []"
    and "\<forall>p\<in>set vertices. \<bar>fst p\<bar> \<le> 9999 \<and> \<bar>snd p\<bar> \<le> 9999"
  shows "\<exists>box. getBoundingBox rt (JString ''Polygon'') (JArray (ring_json vertices # rings))
                 = Inr box
     \<and> (isPointInBoundingBox rt (Num la) (Num lo) box \<longleftrightarrow> in_bounding_box vertices la lo)"
proof -
  obtain a' b' c' d' where
    f: "ringBox rt (JNumber (Num 9999), JNumber (Num 9999),
                    JNumber (Num (-9999)), JNumber (Num (-9999))) (ring_json vertices)
          = Inr (JNumber (Num a'), JNumber (Num b'), JNumber (Num c'), JNumber (Num d'))"
    and a': "\<forall>y. a' \<le> y \<longleftrightarrow> 9999 \<le> y \<or> (\<exists>p\<in>set vertices. snd p \<le> y)"
    and b': "\<forall>x. b' \<le> x \<longleftrightarrow> 9999 \<le> x \<or> (\<exists>p\<in>set vertices. fst p \<le> x)"
    and c': "\<forall>y. y \<le> c' \<longleftrightarrow> y \<le> -9999 \<or> (\<exists>p\<in>set vertices. y \<le> snd p)"
    and d': "\<forall>x. x \<le> d' \<longleftrightarrow> x \<le> -9999 \<or> (\<exists>p\<in>set vertices. x \<le> fst p)"
    using ringBox_numeric [of rt 9999 9999 "-9999" "-9999" vertices] by blast
  obtain v where v: "v \<in> set vertices" using assms(1) by (cases vertices) auto
  have fin: "finite (snd ` set vertices)" "snd ` set vertices \<noteq> {}"
      "finite (fst ` set vertices)" "fst ` set vertices \<noteq> {}"
    using assms(1) by simp_all
  have 1: "a' \<le> la \<longleftrightarrow> Min (snd ` set vertices) \<le> la"
  proof -
    have "9999 \<le> la \<Longrightarrow> \<exists>p\<in>set vertices. snd p \<le> la"
      using v assms(2) by (intro bexI [of _ v]) auto
    then show ?thesis using a' by (auto simp add: Min_le_iff [OF fin(1,2)])
  qed
  have 2: "b' \<le> lo \<longleftrightarrow> Min (fst ` set vertices) \<le> lo"
  proof -
    have "9999 \<le> lo \<Longrightarrow> \<exists>p\<in>set vertices. fst p \<le> lo"
      using v assms(2) by (intro bexI [of _ v]) auto
    then show ?thesis using b' by (auto simp add: Min_le_iff [OF fin(3,4)])
  qed
  have 3: "la \<le> c' \<longleftrightarrow> la \<le> Max (snd ` set vertices)"
  proof -
    have "la \<le> -9999 \<Longrightarrow> \<exists>p\<in>set vertices. la \<le> snd p"
      using v assms(2) by (intro bexI [of _ v]) auto
    then show ?thesis using c' by (auto simp add: Max_ge_iff [OF fin(1,2)])
  qed
  have 4: "lo \<le> d' \<longleftrightarrow> lo \<le> Max (fst ` set vertices)"
  proof -
    have "lo \<le> -9999 \<Longrightarrow> \<exists>p\<in>set vertices. lo \<le> fst p"
      using v assms(2) by (intro bexI [of _ v]) auto
    then show ?thesis using d' by (auto simp add: Max_ge_iff [OF fin(3,4)])
  qed
  have "getBoundingBox rt (JString ''Polygon'') (JArray (ring_json vertices # rings))
        = Inr (JNumber (Num a'), JNumber (Num b'), JNumber (Num c'), JNumber (Num d'))"
    by (simp add: getBoundingBox_def f)
  moreover have "isPointInBoundingBox rt (Num la) (Num lo)
                   (JNumber (Num a'), JNumber (Num b'), JNumber (Num c'), JNumber (Num d'))
                 \<longleftrightarrow> in_bounding_box vertices la lo"
    using 1 2 3 4 by (auto simp add: in_bounding_box_def)
  ultimately show ?thesis by blast
qed

text \<open>
  So a feed whose only feature is such a polygon gives the penalty 5 exactly when the
  point is in the inclusive bounding box of the ring.
\<close>

lemma polygon_feature_fields:
  "polygon_feature rings \<noteq> JNull" "polygon_feature rings \<noteq> JUndefined"
  "getProp (polygon_feature rings) ''geometry''
     = JObject [(''type'', JString ''Polygon''), (''coordinates'', JArray rings)]"
  by (simp_all add: polygon_feature_def)

lemma scan_polygon_feature:
  "scanFeatures rt la lo (polygon_feature rings # rest) =
     (case getBoundingBox rt (JString ''Polygon'') (JArray rings) of
        Inl e \<Rightarrow> Inl e
      | Inr box \<Rightarrow>
          if isPointInBoundingBox rt la lo box then Inr (Num 5)
          else scanFeatures rt la lo rest)"
  by (simp add: polygon_feature_fields Let_def)

lemma feed_of_scan:
  "tryBlock rt (feed_of features) env
   = scanFeatures rt (lat (location env)) (lng (location env)) features"
  by (simp add: tryBlock_def feed_of_def)

lemma single_polygon_penalty:
  assumes "vertices \<noteq> []"
    and "\<forall>p\<in>set vertices. \<bar>fst p\<bar> \<le> 9999 \<and> \<bar>snd p\<bar> \<le> 9999"
    and "lat (location env) = Num la" "lng (location env) = Num lo"
  shows "getActiveFirePenalty rt (feed_of [polygon_feature (ring_json vertices # rings)]) env
         = Inr (if in_bounding_box vertices la lo then Num 5 else Num 0)"
proof -
  obtain box where
    b: "getBoundingBox rt (JString ''Polygon'') (JArray (ring_json vertices # rings)) = Inr box"
    and i: "isPointInBoundingBox rt (Num la) (Num lo) box \<longleftrightarrow> in_bounding_box vertices la lo"
    using polygon_box_is_bounding_box [OF assms(1,2), of rt rings la lo] by blast
  show ?thesis
    by (simp add: getActiveFirePenalty_def feed_of_scan scan_polygon_feature assms(3,4) b i
          del: scanFeatures.simps(2))
qed

lemma square_in_range:
  "square_vertices \<noteq> []"
  "\<forall>p\<in>set square_vertices. \<bar>fst p\<bar> \<le> 9999 \<and> \<bar>snd p\<bar> \<le> 9999"
  by (simp_all add: square_vertices_def)

lemma point_in_square: "in_bounding_box square_vertices 5 5"
  by (simp add: in_bounding_box_def square_vertices_def)

lemma env_at_5_5_point:
  "lat (location env_at_5_5) = Num 5" "lng (location env_at_5_5) = Num 5"
  by (simp_all add: env_at_5_5_def)

lemma square_box:
  "getBoundingBox rt (JString ''Polygon'') (JArray [ring_json square_vertices])
   = Inr (JNumber (Num 0), JNumber (Num 0), JNumber (Num 10), JNumber (Num 10))"
  by (simp add: getBoundingBox_def ringBox_def ring_json_def square_vertices_def
        destructure2_def)

lemma empty_polygon_throws:
  "getBoundingBox rt (JString ''Polygon'') (JArray []) = Inl TypeError"
  by (simp add: getBoundingBox_def ringBox_def)

text \<open>The first hit decides: two perimeters around the point give 5, as one does.\<close>

lemma penalty_once:
  "getActiveFirePenalty rt (feed_of [square_feature, square_feature]) env_at_5_5 = Inr (Num 5)"
  by (simp add: getActiveFirePenalty_def feed_of_scan square_feature_def scan_polygon_feature
        square_box env_at_5_5_point del: scanFeatures.simps(2))

text \<open>
  C3 at an input where the code departs from it. The feed holds two features: a
  polygon whose coordinates array is empty, then a square perimeter. The point (5, 5)
  is in the inclusive bounding box of the square, and a feed with the square alone
  gives the penalty 5, as the claim says. With the empty polygon before it the check
  returns 0: the empty array passes the test \<open>!coords\<close>, \<open>coords[0]\<close> is \<open>undefined\<close>,
  iterating it throws, and the handler around the whole loop returns 0 before the
  square is looked at.
\<close>

theorem penalty_missed_after_empty_polygon:
  "in_bounding_box square_vertices 5 5
   \<and> getActiveFirePenalty rt (feed_of [square_feature]) env_at_5_5 = Inr (Num 5)
   \<and> getActiveFirePenalty rt (feed_of [empty_polygon_feature, square_feature]) env_at_5_5
       = Inr (Num 0)"
proof -
  have a: "getActiveFirePenalty rt (feed_of [square_feature]) env_at_5_5 = Inr (Num 5)"
    by (simp add: getActiveFirePenalty_def feed_of_scan square_feature_def scan_polygon_feature
          square_box env_at_5_5_point del: scanFeatures.simps(2))
  have b: "getActiveFirePenalty rt (feed_of [empty_polygon_feature, square_feature]) env_at_5_5
       = Inr (Num 0)"
    by (simp add: getActiveFirePenalty_def feed_of_scan empty_polygon_feature_def
          scan_polygon_feature empty_polygon_throws del: scanFeatures.simps(2))
  from point_in_square a b show ?thesis by blast
qed

text \<open>A \<open>null\<close> among the features ends the scan in the same way.\<close>

lemma penalty_missed_after_null_feature:
  "getActiveFirePenalty rt (feed_of [JNull, square_feature]) env_at_5_5 = Inr (Num 0)"
  by (simp add: getActiveFirePenalty_def feed_of_scan)

text \<open>
  The box of a multi-polygon is taken over the rings of all its polygons: the point
  (5, 5) is in the box of the second polygon of the feature.
\<close>

lemma multipolygon_box:
  "getBoundingBox rt (JString ''MultiPolygon'')
     (JArray [JArray [ring_json far_vertices], JArray [ring_json square_vertices]])
   = Inr (JNumber (Num 0), JNumber (Num 0), JNumber (Num 30), JNumber (Num 30))"
  by (simp add: getBoundingBox_def ringBox_def ring_json_def square_vertices_def
        far_vertices_def destructure2_def)

lemma multipolygon_penalty:
  "getActiveFirePenalty rt
     (feed_of [multipolygon_feature
                 [JArray [ring_json far_vertices], JArray [ring_json square_vertices]]])
     env_at_5_5
   = Inr (Num 5)"
  by (simp add: getActiveFirePenalty_def feed_of_scan multipolygon_feature_def Let_def
        multipolygon_box env_at_5_5_point)

section \<open>Properties of the normalization\<close>

lemma unifyRecord_throws:
  "raw = JNull \<or> raw = JUndefined \<Longrightarrow> unifyRecord rt raw = Inl TypeError"
  by (simp add: unifyRecord_def)

lemma unifyRecord_no_location:
  "raw \<noteq> JNull \<Longrightarrow> raw \<noteq> JUndefined \<Longrightarrow> \<not> truthy (getProp raw ''location'')
   \<Longrightarrow> unifyRecord rt raw = Inr None"
  by (simp add: unifyRecord_def Let_def)

lemma unifyRecord_not_numeric:
  assumes "raw \<noteq> JNull" "raw \<noteq> JUndefined" "\<not> numeric_coordinates raw"
  shows "unifyRecord rt raw = Inr None"
proof (cases "truthy (getProp raw ''location'')")
  case False
  then show ?thesis using assms unifyRecord_no_location by blast
next
  case True
  show ?thesis
  proof (cases "getProp (getProp raw ''location'') ''latitude''")
    case (JNumber la)
    then have "\<not> is_number (getProp (getProp raw ''location'') ''longitude'')"
      using assms(3) by (simp add: numeric_coordinates_def)
    then show ?thesis
      using assms(1,2) True JNumber
      by (cases "getProp (getProp raw ''location'') ''longitude''")
         (simp_all add: unifyRecord_def Let_def split del: if_split)
  qed (use assms(1,2) True in \<open>simp_all add: unifyRecord_def Let_def split del: if_split\<close>)
qed

lemma unifyRecord_numeric:
  assumes "raw \<noteq> JNull" "raw \<noteq> JUndefined"
    and "getProp (getProp raw ''location'') ''latitude'' = JNumber la"
    and "getProp (getProp raw ''location'') ''longitude'' = JNumber lo"
    and "truthy (getProp raw ''location'')"
  shows "\<exists>r. unifyRecord rt raw = Inr (Some r) \<and> area_burned r = raw_area raw
             \<and> fire_location r = \<lparr> latitude = la, longitude = lo \<rparr>"
  using assms
  by (simp add: unifyRecord_def Let_def raw_area_def split del: if_split cong: jsval.case_cong)
     (simp split: jsval.split)

lemma raw_area_not_NaN: "\<not> isNaN (raw_area raw)"
  by (simp add: raw_area_def split: jsval.split)

lemma unifyRecord_Some:
  assumes h: "unifyRecord rt raw = Inr (Some r)"
  shows "(\<exists>la lo. getProp (getProp raw ''location'') ''latitude'' = JNumber la
              \<and> getProp (getProp raw ''location'') ''longitude'' = JNumber lo
              \<and> fire_location r = \<lparr> latitude = la, longitude = lo \<rparr>)
      \<and> area_burned r = raw_area raw \<and> \<not> isNaN (area_burned r)"
proof -
  have n: "raw \<noteq> JNull" "raw \<noteq> JUndefined"
    using h unifyRecord_throws [of raw rt] by auto
  have t: "truthy (getProp raw ''location'')"
    using h n unifyRecord_no_location [of raw rt] by auto
  have "numeric_coordinates raw"
    using h n unifyRecord_not_numeric [of raw rt] by auto
  then obtain la lo where
    c: "getProp (getProp raw ''location'') ''latitude'' = JNumber la"
       "getProp (getProp raw ''location'') ''longitude'' = JNumber lo"
    unfolding numeric_coordinates_def
    by (cases "getProp (getProp raw ''location'') ''latitude''";
        cases "getProp (getProp raw ''location'') ''longitude''") simp_all
  obtain r' where r': "unifyRecord rt raw = Inr (Some r')" "area_burned r' = raw_area raw"
      "fire_location r' = \<lparr> latitude = la, longitude = lo \<rparr>"
    using unifyRecord_numeric [OF n c t, of rt] by blast
  then have "r' = r" using h by simp
  then show ?thesis using r' c raw_area_not_NaN [of raw] by auto
qed

text \<open>
  The loader keeps the property: when no record of the store has the area \<open>NaN\<close>
  before loading, none has after.
\<close>

lemma pushEntries_areas:
  assumes "\<forall>r\<in>set store. \<not> isNaN (area_burned r)"
  shows "\<forall>r\<in>set (pushEntries rt raws store). \<not> isNaN (area_burned r)"
  using assms
proof (induction raws arbitrary: store)
  case Nil
  then show ?case by simp
next
  case (Cons raw raws)
  show ?case
  proof (cases "unifyRecord rt raw")
    case (Inl e)
    then show ?thesis using Cons.prems by simp
  next
    case (Inr res)
    show ?thesis
    proof (cases res)
      case None
      then have "pushEntries rt (raw # raws) store = pushEntries rt raws store"
        using Inr by simp
      moreover have "\<forall>x\<in>set (pushEntries rt raws store). \<not> isNaN (area_burned x)"
        using Cons.prems by (rule Cons.IH)
      ultimately show ?thesis by (simp only:)
    next
      case (Some r)
      then have "unifyRecord rt raw = Inr (Some r)" using Inr by simp
      then have "\<not> isNaN (area_burned r)"
        by (rule unifyRecord_Some [THEN conjunct2, THEN conjunct2])
      then have "\<forall>x\<in>set (store @ [r]). \<not> isNaN (area_burned x)" using Cons.prems by simp
      then have "\<forall>x\<in>set (pushEntries rt raws (store @ [r])). \<not> isNaN (area_burned x)"
        by (rule Cons.IH)
      moreover have "pushEntries rt (raw # raws) store = pushEntries rt raws (store @ [r])"
        by (simp add: \<open>unifyRecord rt raw = Inr (Some r)\<close>)
      ultimately show ?thesis by (simp only:)
    qed
  qed
qed

lemma loadFiles_areas:
  assumes "\<forall>r\<in>set store. \<not> isNaN (area_burned r)"
  shows "\<forall>r\<in>set (foldl (loadFile rt fs) store names). \<not> isNaN (area_burned r)"
  using assms
proof (induction names arbitrary: store)
  case Nil
  then show ?case by simp
next
  case (Cons name names)
  have "\<forall>r\<in>set (loadFile rt fs store name). \<not> isNaN (area_burned r)"
  proof (cases "fs name")
    case FileFailure
    then show ?thesis using Cons.prems by (simp add: loadFile_def)
  next
    case (FileEntries rawArray)
    then have "loadFile rt fs store name = pushEntries rt rawArray store"
      by (simp add: loadFile_def)
    moreover have "\<forall>r\<in>set (pushEntries rt rawArray store). \<not> isNaN (area_burned r)"
      using Cons.prems by (rule pushEntries_areas)
    ultimately show ?thesis by (simp only:)
  qed
  then have "\<forall>r\<in>set (foldl (loadFile rt fs) (loadFile rt fs store name) names).
               \<not> isNaN (area_burned r)"
    by (rule Cons.IH)
  then show ?case by simp
qed

lemma loaded_store_areas:
  assumes "\<forall>r\<in>set (historicalData st). \<not> isNaN (area_burned r)"
  shows "\<forall>r\<in>set (historicalData (loadHistoricalWildfireData rt fs st)).
           \<not> isNaN (area_burned r)"
proof (cases "loaded st")
  case True
  then show ?thesis using assms by (simp add: loadHistoricalWildfireData_def)
next
  case False
  then have "historicalData (loadHistoricalWildfireData rt fs st)
             = foldl (loadFile rt fs) (historicalData st) files"
    by (simp add: loadHistoricalWildfireData_def)
  moreover have "\<forall>r\<in>set (foldl (loadFile rt fs) (historicalData st) files).
                   \<not> isNaN (area_burned r)"
    using assms by (rule loadFiles_areas)
  ultimately show ?thesis by (simp only:)
qed

lemma negative_entry_record:
  "unifyRecord rt negative_area_entry = Inr (Some negative_area_record)"
  by (simp add: unifyRecord_def negative_area_entry_def negative_area_record_def
        unifyCause_def unifySeverity_def)

text \<open>
  C7, as the claim states it, fails: a raw entry whose \<open>area_burned\<close> is -5 is admitted
  to the store with the area -5.
\<close>

theorem negative_area_admitted:
  "unifyRecord sample_runtime negative_area_entry = Inr (Some negative_area_record)
   \<and> area_burned negative_area_record < Num 0
   \<and> historicalData
        (loadHistoricalWildfireData sample_runtime one_file
           \<lparr> historicalData = [], loaded = False \<rparr>)
      = [negative_area_record]"
  by (simp add: negative_entry_record loadHistoricalWildfireData_def files_def loadFile_def
        one_file_def)
     (simp add: negative_area_record_def)

text \<open>
  C7, amended. A record that \<open>unifyRecord\<close> returns has the latitude and the longitude
  of the raw entry, both of type number, and an area that is not \<open>NaN\<close>: the raw
  \<open>area_burned\<close> when that is a number other than \<open>NaN\<close>, of either sign, and 0 otherwise.
  A raw entry whose latitude or longitude is not a number gives no record.
\<close>

theorem admitted_record_fields:
  "(unifyRecord rt raw = Inr (Some r) \<longrightarrow>
      (\<exists>la lo. getProp (getProp raw ''location'') ''latitude'' = JNumber la
              \<and> getProp (getProp raw ''location'') ''longitude'' = JNumber lo
              \<and> fire_location r = \<lparr> latitude = la, longitude = lo \<rparr>)
      \<and> area_burned r = raw_area raw \<and> \<not> isNaN (area_burned r))
   \<and> (\<not> numeric_coordinates raw \<longrightarrow> unifyRecord rt raw \<in> {Inr None, Inl TypeError})"
proof -
  have "\<not> numeric_coordinates raw \<Longrightarrow> unifyRecord rt raw \<in> {Inr None, Inl TypeError}"
    using unifyRecord_throws [of raw rt] unifyRecord_not_numeric [of raw rt] by blast
  then show ?thesis using unifyRecord_Some [of rt raw r] by blast
qed

theorem admitted_record_fields_witness:
  "unifyRecord sample_runtime negative_area_entry = Inr (Some negative_area_record)
   \<and> area_burned negative_area_record = raw_area negative_area_entry
   \<and> \<not> isNaN (area_burned negative_area_record)
   \<and> \<not> numeric_coordinates (JObject [])
   \<and> unifyRecord sample_runtime (JObject []) \<in> {Inr None, Inl TypeError}"
proof -
  have a: "unifyRecord sample_runtime negative_area_entry = Inr (Some negative_area_record)"
    by (rule negative_entry_record)
  have b: "\<not> numeric_coordinates (JObject [])"
    by (simp add: numeric_coordinates_def)
  show ?thesis
    using a b
      admitted_record_fields [of sample_runtime negative_area_entry negative_area_record]
      admitted_record_fields [of sample_runtime "JObject []"]
    by blast
qed

section \<open>Dependence on the clock\<close>

lemma sample_newDate:
  "newDate sample_runtime ''2020-07-01''
     = \<lparr> getTime = Num 1593561600000, getFullYear = Num 2020, getMonth = Num 6 \<rparr>"
  by (simp add: sample_runtime_def sample_dates_def)

lemma sample_lower:
  "toLowerCase sample_runtime ''extreme'' = ''extreme''"
  "toLowerCase sample_runtime ''Unknown'' = ''unknown''"
  by (simp_all add: sample_runtime_def ascii_lower_def)

lemma sample_fire_fields:
  "date (fire_on d) = d" "cause (fire_on d) = ''Unknown''" "severity (fire_on d) = ''extreme''"
  "area_burned (fire_on d) = Num 1000"
  "latitude (fire_location (fire_on d)) = Num 50"
  "longitude (fire_location (fire_on d)) = Num (-100)"
  by (simp_all add: fire_on_def)

lemma sample_recency:
  "getRecencyFactor sample_runtime (clock world_2021) ''2020-07-01'' = Num 1"
  "getRecencyFactor sample_runtime (clock world_2031) ''2020-07-01'' = Num 0.2"
  by (simp_all add: getRecencyFactor_def sample_newDate world_2021_def world_2031_def msInYear_def)

lemma sample_cause: "getCauseFactor sample_runtime ''Unknown'' = Num 1"
  by (simp add: getCauseFactor_def sample_lower)

lemma sample_seasonality:
  "getSeasonalityFactor sample_runtime (clock world_2021) ''2020-07-01'' (Num 50) (Num (-100)) = Num 1.1"
  "getSeasonalityFactor sample_runtime (clock world_2031) ''2020-07-01'' (Num 50) (Num (-100)) = Num 1.1"
  by (simp_all add: getSeasonalityFactor_def sample_newDate world_2021_def world_2031_def)

lemma sample_severity: "adjustSeverityForLandscape sample_runtime ''extreme'' y Unknown = Num 3"
  by (simp add: adjustSeverityForLandscape_def sample_lower)

lemma sample_weight: "getDistanceWeight (Num 0) (Num 75) = Num 1"
  by (simp add: getDistanceWeight_def)

lemma sample_fireScore:
  "fireScore sample_runtime (clock world_2021) cold_env (Num 75) (fire_on ''2020-07-01'') = Num 4.95"
  "fireScore sample_runtime (clock world_2031) cold_env (Num 75) (fire_on ''2020-07-01'') = Num 0.99"
  by (simp_all add: fireScore_def sample_distance sample_fire_fields sample_recency sample_cause
        sample_seasonality sample_severity sample_weight)

lemma sample_year:
  "fireYear sample_runtime (fire_on ''2019-07-01'') = Num 2019"
  "fireYear sample_runtime (fire_on ''2020-07-01'') = Num 2020"
  "fireYear sample_runtime (fire_on ''2020-08-01'') = Num 2020"
  "fireYear sample_runtime (fire_on ''2021-07-01'') = Num 2021"
  "fireYear sample_runtime (fire_on ''2023-07-01'') = Num 2023"
  "fireYear sample_runtime (fire_on ''2024-07-01'') = Num 2024"
  by (simp_all add: fireYear_def sample_runtime_def fire_on_def sample_dates_def)

lemma sample_radius: "adaptiveRadius sample_runtime cold_env [fire_on ''2020-07-01''] = Num 75"
  by (simp add: adaptiveRadius_def quickCandidate_def sample_distance)

lemma sample_nearest:
  "nearestFires sample_runtime cold_env [fire_on ''2020-07-01''] = [fire_on ''2020-07-01'']"
  by (simp add: nearestFires_def candidateFires_def sample_radius sample_distance js_sort_def)

lemma sample_penalties:
  "getConsecutiveYearPenalty sample_runtime [fire_on ''2020-07-01''] = Num 0"
  "getOverlappingFiresPenalty sample_runtime [fire_on ''2020-07-01''] = Num 0"
  by (simp_all add: getConsecutiveYearPenalty_def getOverlappingFiresPenalty_def sample_year)

lemma cold_env_fields:
  "temperature cold_env = Num 0" "airQuality cold_env = None" "windSpeed cold_env = None"
  "humidity cold_env = None" "drynessIndex cold_env = None" "timeOfDay cold_env = None"
  by (simp_all add: cold_env_def)

lemma sample_total:
  "computeRiskFromHistoryAndRealTime sample_runtime (clock world_2021) cold_env
     [fire_on ''2020-07-01''] (Num 75) = Num 5.95"
  "computeRiskFromHistoryAndRealTime sample_runtime (clock world_2031) cold_env
     [fire_on ''2020-07-01''] (Num 75) = Num 1.99"
  by (simp_all add: computeRiskFromHistoryAndRealTime_def sample_fireScore sample_penalties
        cold_env_fields)

lemma cold_floor: "level (assessDangerLevel cold_env) = NoRisk"
  by (simp add: assessDangerLevel_def cold_env_fields tempLevel_def aqiLevel_def
        indexOf_dangerLevels dangerLevels_nth [of NoRisk, simplified])

lemma no_feed_penalty:
  "getActiveFirePenalty rt (feed world_2021) env = Inr (Num 0)"
  "getActiveFirePenalty rt (feed world_2031) env = Inr (Num 0)"
  by (simp_all add: getActiveFirePenalty_def tryBlock_def world_2021_def world_2031_def)

lemma loaded_store: "loadHistoricalWildfireData rt fs one_fire_store = one_fire_store"
  by (simp add: loadHistoricalWildfireData_def one_fire_store_def)

lemma one_fire_data: "historicalData one_fire_store = [fire_on ''2020-07-01'']"
  by (simp add: one_fire_store_def)

text \<open>
  C8, as the claim states it, fails: with the same store, the same input and the same
  feed response, a call on 1 January 2021 returns the level low and a call on
  1 January 2031 returns no risk, the fire of 2020 having aged from the first recency
  class into the last.
\<close>

theorem result_depends_on_clock:
  "feed world_2021 = feed world_2031
   \<and> map_sum id riskLevel (snd (getWildfireRisk sample_runtime world_2021 one_fire_store cold_env))
       = Inr Low
   \<and> map_sum id riskLevel (snd (getWildfireRisk sample_runtime world_2031 one_fire_store cold_env))
       = Inr NoRisk"
proof -
  have a: "feed world_2021 = feed world_2031"
    by (simp add: world_2021_def world_2031_def)
  have b: "map_sum id riskLevel (snd (getWildfireRisk sample_runtime world_2021 one_fire_store cold_env))
       = Inr Low"
    by (simp add: getWildfireRisk_def Let_def loaded_store one_fire_data sample_radius
          sample_nearest sample_total no_feed_penalty riskResult_def cold_floor
          determineRiskLevel_stronger stronger_def scoreBasedRisk_def)
  have c: "map_sum id riskLevel (snd (getWildfireRisk sample_runtime world_2031 one_fire_store cold_env))
       = Inr NoRisk"
    by (simp add: getWildfireRisk_def Let_def loaded_store one_fire_data sample_radius
          sample_nearest sample_total no_feed_penalty riskResult_def cold_floor
          determineRiskLevel_stronger stronger_def scoreBasedRisk_def)
  from a b c show ?thesis by blast
qed

lemma severity_unknown_terrain:
  "adjustSeverityForLandscape rt s y Unknown = adjustSeverityForLandscape rt s y' Unknown"
  by (simp add: adjustSeverityForLandscape_def)

lemma fireScore_clock:
  assumes "getTime c1 = getTime c2" "getMonth c1 = getMonth c2"
  shows "fireScore rt c1 env r f = fireScore rt c2 env r f"
  unfolding fireScore_def Let_def getRecencyFactor_def getSeasonalityFactor_def assms
  using severity_unknown_terrain
    [of rt "severity f" "getFullYear c1 - getFullYear (newDate rt (date f))"
        "getFullYear c2 - getFullYear (newDate rt (date f))"]
  by simp

lemma score_clock:
  assumes "getTime c1 = getTime c2" "getMonth c1 = getMonth c2"
  shows "computeRiskFromHistoryAndRealTime rt c1 env fires r
       = computeRiskFromHistoryAndRealTime rt c2 env fires r"
  unfolding computeRiskFromHistoryAndRealTime_def fireScore_clock [OF assms] ..

text \<open>
  C8, amended. Two calls return the same result (level and explanation) and leave the
  same store when they find the same historical collection after loading, the same
  feed response, and clocks that agree on the time and on the month. The year of the
  clock has no influence, the terrain being always unknown.
\<close>

theorem deterministic_given_clock:
  assumes "loadHistoricalWildfireData rt (fileSystem w1) st
           = loadHistoricalWildfireData rt (fileSystem w2) st"
    and "feed w1 = feed w2"
    and "getTime (clock w1) = getTime (clock w2)"
    and "getMonth (clock w1) = getMonth (clock w2)"
  shows "getWildfireRisk rt w1 st env = getWildfireRisk rt w2 st env"
  unfolding getWildfireRisk_def assms(1,2) score_clock [OF assms(3,4)] ..

theorem deterministic_given_clock_witness:
  "loadHistoricalWildfireData sample_runtime (fileSystem world_2021) one_fire_store
     = loadHistoricalWildfireData sample_runtime
         (fileSystem (world_2021 \<lparr> fileSystem := one_file \<rparr>)) one_fire_store
   \<and> getWildfireRisk sample_runtime world_2021 one_fire_store cold_env
     = getWildfireRisk sample_runtime (world_2021 \<lparr> fileSystem := one_file \<rparr>)
         one_fire_store cold_env"
proof -
  have l: "loadHistoricalWildfireData sample_runtime (fileSystem world_2021) one_fire_store
     = loadHistoricalWildfireData sample_runtime
         (fileSystem (world_2021 \<lparr> fileSystem := one_file \<rparr>)) one_fire_store"
    by (simp add: loaded_store)
  have f: "feed world_2021 = feed (world_2021 \<lparr> fileSystem := one_file \<rparr>)"
    and t: "getTime (clock world_2021) = getTime (clock (world_2021 \<lparr> fileSystem := one_file \<rparr>))"
    and m: "getMonth (clock world_2021) = getMonth (clock (world_2021 \<lparr> fileSystem := one_file \<rparr>))"
    by simp_all
  show ?thesis
    using l deterministic_given_clock [OF l f t m, of cold_env] by blast
qed

section \<open>The consecutive-year penalty\<close>

lemma insert_by_years:
  "insert_by (\<lambda>a b. a - b) (year_number x) (map year_number zs) = map year_number (insort x zs)"
  by (induction zs) (auto simp add: year_number_def)

lemma js_sort_years:
  "js_sort (\<lambda>a b. a - b) (map year_number ys) = map year_number (sort ys)"
  by (induction ys) (simp_all add: js_sort_def sort_key_def insert_by_years)

lemma sortYears_years: "sortYears rt (map year_number ys) = map year_number (sort ys)"
proof -
  have "\<not> list_ex isNaN (map year_number ys)"
    by (induction ys) (simp_all add: year_number_def)
  then show ?thesis by (simp add: sortYears_def js_sort_years)
qed

lemma run_lengths_nonempty: "run_lengths (z # zs) \<noteq> []"
  by (induction zs arbitrary: z) (auto split: list.splits)

lemma penalty_is_run_penalty: "getPenaltyByConsecutiveCount n = Num (run_penalty n)"
  by (simp add: getPenaltyByConsecutiveCount_def run_penalty_def)

lemma run_penalty_small: "n < 2 \<Longrightarrow> run_penalty n = 0"
  by (simp add: run_penalty_def)

lemma final_run_Num: "final_run (Num t, c) = Num (t + run_penalty c)"
  by (simp add: final_run_def penalty_is_run_penalty run_penalty_small)

lemma consecutiveLoop_runs:
  "final_run (consecutiveLoop (map year_number (z # zs)) (Num t) c) =
     Num (t + (case run_lengths (z # zs) of
                 [] \<Rightarrow> 0
               | n # ns \<Rightarrow> run_penalty (c + n - 1) + sum_list (map run_penalty ns)))"
proof (induction zs arbitrary: z t c)
  case Nil
  then show ?case by (simp add: final_run_Num)
next
  case (Cons w ws)
  obtain n ns where r: "run_lengths (w # ws) = n # ns"
    using run_lengths_nonempty [of w ws] by (cases "run_lengths (w # ws)") auto
  show ?case
  proof (cases "w = z + 1")
    case True
    then have "strict_eq (year_number w) (year_number z + Num 1)"
      by (simp add: year_number_def)
    then have "consecutiveLoop (map year_number (z # w # ws)) (Num t) c
               = consecutiveLoop (map year_number (w # ws)) (Num t) (c + 1)"
      by simp
    then show ?thesis
      using Cons.IH [of w t "c + 1"] True r by simp
  next
    case False
    then have "\<not> strict_eq (year_number w) (year_number z + Num 1)"
      by (simp add: year_number_def)
    moreover have "(if c \<ge> 2 then Num t + getPenaltyByConsecutiveCount c else Num t)
                   = Num (t + run_penalty c)"
      by (simp add: penalty_is_run_penalty run_penalty_small)
    ultimately have "consecutiveLoop (map year_number (z # w # ws)) (Num t) c
               = consecutiveLoop (map year_number (w # ws)) (Num (t + run_penalty c)) 1"
      by simp
    then show ?thesis
      using Cons.IH [of w "t + run_penalty c" 1] False r by simp
  qed
qed

text \<open>
  What the code computes when every fire has a valid year: the sum, over the maximal
  runs of the sorted list of the years with its repetitions, of the penalty of the
  length of the run. With pairwise different years this is the penalty of the
  specification.
\<close>

lemma consecutive_penalty_runs:
  assumes "map (fireYear rt) fires = map year_number ys"
  shows "getConsecutiveYearPenalty rt fires
         = Num (sum_list (map run_penalty (run_lengths (sort ys))))"
proof (cases "length fires < 2")
  case True
  have "length ys = length fires" using assms by (metis length_map)
  then have "ys = [] \<or> (\<exists>y. ys = [y])"
    using True by (cases ys; cases "tl ys") auto
  then show ?thesis using True by (auto simp add: getConsecutiveYearPenalty_def run_penalty_def)
next
  case False
  have len: "length ys = length fires" using assms by (metis length_map)
  then have "sort ys \<noteq> []" using False by (cases ys) auto
  then obtain z zs where s: "sort ys = z # zs" by (cases "sort ys") auto
  obtain n ns where r: "run_lengths (z # zs) = n # ns"
    using run_lengths_nonempty [of z zs] by (cases "run_lengths (z # zs)") auto
  have "getConsecutiveYearPenalty rt fires
        = final_run (consecutiveLoop (map year_number (z # zs)) (Num 0) 1)"
    using False by (simp add: getConsecutiveYearPenalty_def assms sortYears_years s final_run_def)
  also have "\<dots> = Num (sum_list (map run_penalty (run_lengths (z # zs))))"
    using consecutiveLoop_runs [of z zs 0 1] r by simp
  finally show ?thesis by (simp add: s)
qed

lemma consecutive_penalty_distinct_years:
  assumes "map (fireYear rt) fires = map year_number ys" "distinct ys"
  shows "getConsecutiveYearPenalty rt fires = Num (spec_consecutive_penalty ys)"
  using consecutive_penalty_runs [OF assms(1)] assms(2)
  by (simp add: spec_consecutive_penalty_def distinct_remdups_id)

text \<open>
  The three examples of the specification, as the code computes them: the years
  2019, 2020, 2021 give 0.5, the years 2019, 2020, 2023, 2024 give 0.4, and the years
  2019, 2021 give 0.
\<close>

lemma consecutive_examples:
  "getConsecutiveYearPenalty sample_runtime
     [fire_on ''2019-07-01'', fire_on ''2020-07-01'', fire_on ''2021-07-01''] = Num 0.5"
  "getConsecutiveYearPenalty sample_runtime
     [fire_on ''2019-07-01'', fire_on ''2020-07-01'', fire_on ''2023-07-01'',
      fire_on ''2024-07-01''] = Num 0.4"
  "getConsecutiveYearPenalty sample_runtime
     [fire_on ''2019-07-01'', fire_on ''2021-07-01''] = Num 0"
  by (simp_all add: getConsecutiveYearPenalty_def sortYears_def js_sort_def
        getPenaltyByConsecutiveCount_def sample_year)

text \<open>
  C5 at an input where the code departs from it. Four fires in the years 2019, 2020,
  2020 and 2021: the fire years 2019, 2020, 2021 are one run of three consecutive
  years, for which the specification gives 0.5; the loop of the code, walking the
  sorted years with the repetition, ends a run at the second 2020 and returns
  0.2 + 0.2.
\<close>

theorem repeated_year_breaks_run:
  "getConsecutiveYearPenalty sample_runtime
     [fire_on ''2019-07-01'', fire_on ''2020-07-01'', fire_on ''2020-08-01'',
      fire_on ''2021-07-01''] = Num 0.4
   \<and> spec_consecutive_penalty [2019, 2020, 2020, 2021] = 0.5"
  by (simp add: getConsecutiveYearPenalty_def sortYears_def js_sort_def
        getPenaltyByConsecutiveCount_def sample_year spec_consecutive_penalty_def run_penalty_def)

end
